theory Spec2Isabelle
  imports Complex_Main
begin

section \<open>The JavaScript values that \<open>src/cli.ts\<close> handles\<close>

text \<open>
  \<open>cli.ts\<close> is glue code: it validates the command-line flags, resolves an interval string
  into a time range, stacks request decorators and hands a dataset description to plywood.
  Strings are byte strings (\<open>string\<close>).
  A thrown JavaScript exception is a value of \<open>js_error\<close>; a function that may throw returns
  \<open>js_error + 'a\<close> with \<open>Inl\<close> for the exception.
\<close>

datatype js_error = Error string | TypeError string

fun message :: "js_error \<Rightarrow> string" where
  "message (Error m) = m"
| "message (TypeError m) = m"

text \<open>
  A JavaScript \<open>Date\<close> holds a time value in milliseconds since the epoch, or \<open>NaN\<close>
  (an invalid date). A variable of type \<open>Date\<close> that may still be \<open>null\<close> is a
  \<open>date option\<close>.
\<close>

datatype date = Date int | Invalid_Date

text \<open>
  The value of a numeric flag (\<open>--timeout\<close>, \<open>--retry\<close>, \<open>--concurrent\<close>): a finite number,
  which need not be an integer, or a value that is no number (\<open>undefined\<close> or \<open>NaN\<close>, which
  a caller of \<open>run(command)\<close> can pass). The code only compares such a value with \<open>0\<close> and
  passes it on; \<open>v > 0\<close> is false for \<open>undefined\<close> and \<open>NaN\<close>.
\<close>

datatype js_number = Number rat | Undefined_or_NaN

fun positive :: "js_number \<Rightarrow> bool" where
  "positive (Number r) = (r > 0)"
| "positive Undefined_or_NaN = False"

datatype timezone = UTC

record 'expr sqlParse =
  verb :: string
  expression :: 'expr
  table :: "string option"

text \<open>
  The collaborators that are imported by \<open>cli.ts\<close> and whose code lives in other packages
  (the built-in \<open>Date\<close>, chronoshift's \<open>Duration\<close>, plywood's \<open>TimeRange\<close> and
  \<open>Expression\<close>) are parameters of the model, collected in one record.
  \<open>Duration_move L d date tz step\<close> stands for \<open>d.move(date, tz, step)\<close>.
\<close>

record ('dur, 'tr, 'expr) lib =
  Date_parse :: "string \<Rightarrow> date"
  toISOString :: "date \<Rightarrow> string"
  Duration_fromJS :: "string \<Rightarrow> js_error + 'dur"
  Duration_move :: "'dur \<Rightarrow> date option \<Rightarrow> timezone \<Rightarrow> int \<Rightarrow> js_error + date option"
  TimeRange_fromJS :: "date option \<Rightarrow> date option \<Rightarrow> js_error + 'tr"
  parseSQL :: "string \<Rightarrow> js_error + 'expr sqlParse"
  JSON_stringify :: "'expr \<Rightarrow> string"

section \<open>parseIntervalString (lines 67-90)\<close>

text \<open>\<open>str.split(sep)\<close> for a one-character separator: always at least one part.\<close>

fun split_str :: "char \<Rightarrow> string \<Rightarrow> string list" where
  "split_str sep [] = [[]]"
| "split_str sep (c # cs) =
     (if c = sep then [] # split_str sep cs
      else (case split_str sep cs of
              p # ps \<Rightarrow> (c # p) # ps
            | [] \<Rightarrow> [[c]]))"

text \<open>\<open>s[0] === 'P'\<close>: indexing the empty string gives \<open>undefined\<close>, which is not \<open>'P'\<close>.\<close>

fun startsWithP :: "string \<Rightarrow> bool" where
  "startsWithP [] = False"
| "startsWithP (c # cs) = (c = CHR ''P'')"

text \<open>
  The function, branch by branch. \<open>now\<close> is the value of \<open>new Date()\<close>.
  In the second branch the source passes the variable \<open>end\<close> to \<open>move\<close> while it is
  still \<open>null\<close>; the model passes \<open>None\<close> there.
\<close>

definition parseIntervalString ::
  "('dur, 'tr, 'expr) lib \<Rightarrow> date \<Rightarrow> string \<Rightarrow> js_error + 'tr" where
  "parseIntervalString L now str =
    (let parts = split_str CHR ''/'' str in
     if length parts > 2 then Inl (Error (''Can not parse string '' @ str))
     else
       let p0 = parts ! 0;
           p1 = (if length parts = 2 then parts ! 1 else toISOString L now)
       in
       if startsWithP p0 then
         (case Duration_fromJS L p0 of
            Inl e \<Rightarrow> Inl e
          | Inr duration \<Rightarrow>
              let end' = Some (Date_parse L p1) in
              (case Duration_move L duration end' UTC (- 1) of
                 Inl e \<Rightarrow> Inl e
               | Inr start \<Rightarrow> TimeRange_fromJS L start end'))
       else if startsWithP p1 then
         (let start = Some (Date_parse L p0) in
          case Duration_fromJS L p1 of
            Inl e \<Rightarrow> Inl e
          | Inr duration \<Rightarrow>
              (case Duration_move L duration None UTC 1 of
                 Inl e \<Rightarrow> Inl e
               | Inr end' \<Rightarrow> TimeRange_fromJS L start end'))
       else
         TimeRange_fromJS L (Some (Date_parse L p0)) (Some (Date_parse L p1)))"

section \<open>run (lines 130-347)\<close>

text \<open>
  The flags as nopt returns them (or as the caller of \<open>run(command)\<close> passes them): a flag
  that is absent is \<open>None\<close> (\<open>undefined\<close>), an absent Boolean flag is \<open>False\<close>. For the three
  numeric flags, which the code tests with \<open>hasOwnProperty\<close>, \<open>None\<close> is an absent key and
  \<open>Some v\<close> a key that holds \<open>v\<close>.
  The field \<open>host_flag\<close> is \<open>parsed['host']\<close>, and so on; \<open>argv_original\<close> is
  \<open>parsed.argv.original\<close>.
\<close>

record parsed =
  argv_original :: "string list"
  host_flag :: "string option"
  druid_flag :: "string option"
  data_source_flag :: "string option"
  help_flag :: bool
  query_flag :: "string option"
  interval_flag :: "string option"
  version_flag :: bool
  verbose_flag :: bool
  timeout_flag :: "js_number option"
  retry_flag :: "js_number option"
  concurrent_flag :: "js_number option"
  output_flag :: "string option"
  allow_flag :: "string list option"
  force_unique_flag :: "string list option"
  force_histogram_flag :: "string list option"
  skip_cache_flag :: bool
  introspection_strategy_flag :: "string option"

text \<open>
  The requesters are values of packages outside the repository; the model keeps the term
  that says which factory was called on what. The arguments are those of the source's
  option objects: \<open>{host, timeout}\<close>, \<open>{requester, retry, delay, retryOnTimeout}\<close>,
  \<open>{requester}\<close> and \<open>{requester, concurrentLimit}\<close>.
\<close>

datatype requester =
    druidRequesterFactory string js_number
  | retryRequesterFactory requester js_number int bool
  | verboseRequesterFactory requester
  | concurrentLimitRequesterFactory requester js_number

record attributeJS =
  name :: string
  special :: string

record druidContext =
  context_timeout :: js_number
  useCache :: "bool option"
  populateCache :: "bool option"

text \<open>The filter \<open>$(timeAttribute).in(interval)\<close>, kept as the pair of its parts.\<close>

datatype 'tr time_filter = ref_in string 'tr

text \<open>
  The object given to \<open>External.fromJS\<close> (lines 278-289). \<open>External.fromJS\<close> belongs to
  plywood; the model takes it to accept the object and records the call.
\<close>

record 'tr external =
  engine :: string
  dataSource :: string
  timeAttribute :: string
  allowEternity :: bool
  allowSelectQueries :: bool
  introspectionStrategy :: "string option"
  time_filter :: "'tr time_filter option"
  requester :: requester
  attributeOverrides :: "attributeJS list"
  context_field :: druidContext

text \<open>
  What an invocation does, in order: the lines it prints, the calls it makes to the SQL
  parser, to the requester factories and to \<open>External.fromJS\<close>, and the query it starts
  (\<open>dataset.introspect()\<close> or \<open>expression.compute(context)\<close>, the only calls that reach
  the network). The context of \<open>compute\<close> is the list of its bindings.
\<close>

datatype ('tr, 'expr) event =
    printUsage
  | printVersion
  | console_log "string list"
  | Expression_parseSQL string
  | factory_call requester
  | External_fromJS "'tr external"
  | introspect "'tr external"
  | compute 'expr "(string \<times> 'tr external) list"

text \<open>
  What \<open>run\<close> returns: \<open>undefined\<close>, or (when called with a command) the promise of the
  query it started. Without a command the promise gets the printing handlers of lines
  293-295 and 305-338 and \<open>run\<close> returns \<open>undefined\<close>; the rendering of the result is
  not part of the model.
\<close>

datatype returned = Undefined | Promise

text \<open>
  Truthiness of a string that may be \<open>undefined\<close>: the empty string is falsy too.
  \<open>js_or a b\<close> is \<open>a || b\<close>.
\<close>

fun truthy :: "string option \<Rightarrow> string option" where
  "truthy None = None"
| "truthy (Some s) = (if s = [] then None else Some s)"

definition js_or :: "string option \<Rightarrow> string option \<Rightarrow> string option" where
  "js_or a b = (case truthy a of Some s \<Rightarrow> Some s | None \<Rightarrow> b)"

text \<open>
  \<open>toLowerCase\<close> on the letters A-Z; every other byte is kept. JavaScript also lower-cases
  capitals outside ASCII, which changes what the error line of line 171 echoes for such a
  value, but not which values pass the test of line 170.
\<close>

definition lowerChar :: "char \<Rightarrow> char" where
  "lowerChar c =
     (case map_of (zip ''ABCDEFGHIJKLMNOPQRSTUVWXYZ'' ''abcdefghijklmnopqrstuvwxyz'') c of
        Some l \<Rightarrow> l
      | None \<Rightarrow> c)"

definition toLowerCase :: "string \<Rightarrow> string" where
  "toLowerCase s = map lowerChar s"

text \<open>The loop of lines 150-155: the first value that is neither eternity nor select.\<close>

fun unexpectedAllow :: "string list \<Rightarrow> string option" where
  "unexpectedAllow [] = None"
| "unexpectedAllow (allow # rest) =
     (if \<not> (allow = ''eternity'' \<or> allow = ''select'') then Some allow
      else unexpectedAllow rest)"

text \<open>The loops of lines 160-162 and 164-166: one \<open>push\<close> per flag value.\<close>

fun pushOverrides :: "attributeJS list \<Rightarrow> string \<Rightarrow> string list \<Rightarrow> attributeJS list" where
  "pushOverrides acc kind [] = acc"
| "pushOverrides acc kind (attributeName # rest) =
     pushOverrides (acc @ [\<lparr>name = attributeName, special = kind\<rparr>]) kind rest"

definition run ::
  "('dur, 'tr, 'expr) lib \<Rightarrow> parsed \<Rightarrow> date \<Rightarrow> parsed option \<Rightarrow>
     ('tr, 'expr) event list \<times> returned" where
  "run L args now command =
    (let parsed = (case command of Some c \<Rightarrow> c | None \<Rightarrow> args) in
     if command = None \<and> (argv_original parsed = [] \<or> help_flag parsed)
     then ([printUsage], Undefined)
     else if version_flag parsed then ([printVersion], Undefined)
     else
     let verbose = verbose_flag parsed;
         allows = (case allow_flag parsed of Some a \<Rightarrow> a | None \<Rightarrow> [])
     in
     case unexpectedAllow allows of
       Some allow \<Rightarrow> ([console_log [''Unexpected allow'', allow]], Undefined)
     | None \<Rightarrow>
     let forceUnique = (case force_unique_flag parsed of Some a \<Rightarrow> a | None \<Rightarrow> []);
         forceHistogram = (case force_histogram_flag parsed of Some a \<Rightarrow> a | None \<Rightarrow> []);
         attributeOverrides =
           pushOverrides (pushOverrides [] ''unique'' forceUnique) ''histogram'' forceHistogram;
         output = toLowerCase (case truthy (output_flag parsed) of Some s \<Rightarrow> s | None \<Rightarrow> ''json'')
     in
     if output \<noteq> ''json'' \<and> output \<noteq> ''csv'' \<and> output \<noteq> ''tsv'' \<and> output \<noteq> ''flat''
     then ([console_log [''output must be one of json, csv, tsv, or flat (is '' @ output @ ''})'']],
           Undefined)
     else
     case truthy (js_or (druid_flag parsed) (host_flag parsed)) of
       None \<Rightarrow> ([console_log [''must have a host'']], Undefined)
     | Some host \<Rightarrow>
     case truthy (query_flag parsed) of
       None \<Rightarrow> ([console_log [''no query found please use --query (-q) flag'']], Undefined)
     | Some query \<Rightarrow>
     case parseSQL L query of
       Inl e \<Rightarrow>
         ([Expression_parseSQL query, console_log [''Could not parse query as SQL:'', message e]],
          Undefined)
     | Inr sqlParse \<Rightarrow>
     if verb sqlParse \<noteq> ''SELECT'' \<and> verb sqlParse \<noteq> ''DESCRIBE''
     then ([Expression_parseSQL query, console_log [''SQL must be a SELECT or DESCRIBE query'']],
           Undefined)
     else
     let expression = expression sqlParse;
         ev1 = [Expression_parseSQL query] @
           (if verbose then
              [console_log [''Parsed query as the following plywood expression (as JSON):''],
               console_log [JSON_stringify L expression],
               console_log [''---------------------------'']]
            else [])
     in
     case (case truthy (data_source_flag parsed) of
             Some d \<Rightarrow> Some (''data'', d)
           | None \<Rightarrow>
               (case truthy (table sqlParse) of
                  Some t \<Rightarrow> Some (t, t)
                | None \<Rightarrow> None)) of
       None \<Rightarrow> (ev1 @ [console_log [''must have data source'']], Undefined)
     | Some (dataName, dataSource') \<Rightarrow>
     let timeout = (case timeout_flag parsed of Some t \<Rightarrow> t | None \<Rightarrow> Number 60000);
         requester0 = druidRequesterFactory host timeout;
         retry = (case retry_flag parsed of Some r \<Rightarrow> r | None \<Rightarrow> Number 2);
         requester1 =
           (if positive retry then retryRequesterFactory requester0 retry 500 False
            else requester0);
         requester2 = (if verbose then verboseRequesterFactory requester1 else requester1);
         concurrent = (case concurrent_flag parsed of Some c \<Rightarrow> c | None \<Rightarrow> Number 2);
         requester =
           (if positive concurrent then concurrentLimitRequesterFactory requester2 concurrent
            else requester2);
         ev2 = ev1 @ [factory_call requester0] @
           (if positive retry then [factory_call requester1] else []) @
           (if verbose then [factory_call requester2] else []) @
           (if positive concurrent then [factory_call requester] else []);
         timeAttribute = ''__time''
     in
     case (case truthy (interval_flag parsed) of
             None \<Rightarrow> Inr None
           | Some intervalString \<Rightarrow>
               (case parseIntervalString L now intervalString of
                  Inl e \<Rightarrow> Inl (intervalString, e)
                | Inr interval \<Rightarrow> Inr (Some (ref_in timeAttribute interval)))) of
       Inl (intervalString, e) \<Rightarrow>
         (ev2 @ [console_log [''Could not parse interval'', intervalString],
                 console_log [message e]],
          Undefined)
     | Inr filter' \<Rightarrow>
     let druidContext =
           (if skip_cache_flag parsed
            then \<lparr>context_timeout = timeout, useCache = Some False, populateCache = Some False\<rparr>
            else \<lparr>context_timeout = timeout, useCache = None, populateCache = None\<rparr>);
         dataset =
           \<lparr>engine = ''druid'',
            dataSource = dataSource',
            timeAttribute = timeAttribute,
            allowEternity = List.member allows ''eternity'',
            allowSelectQueries = List.member allows ''select'',
            introspectionStrategy = introspection_strategy_flag parsed,
            time_filter = filter',
            requester = requester,
            attributeOverrides = attributeOverrides,
            context_field = druidContext\<rparr>;
         ev3 = ev2 @ [External_fromJS dataset]
     in
     if verb sqlParse = ''DESCRIBE'' then
       (ev3 @ [introspect dataset], if command = None then Undefined else Promise)
     else if verb sqlParse = ''SELECT'' then
       (ev3 @ [compute expression [(dataName, dataset)]],
        if command = None then Undefined else Promise)
     else (ev3 @ [console_log [''Unsupported verb'']], Undefined))"

section \<open>Reading a trace\<close>

text \<open>
  An event that only prints. An invocation whose events all print has parsed no query,
  built no transport and started no query.
\<close>

fun isPrint :: "('tr, 'expr) event \<Rightarrow> bool" where
  "isPrint printUsage = True"
| "isPrint printVersion = True"
| "isPrint (console_log line) = True"
| "isPrint _ = False"

text \<open>The requesters that the factories returned, in the order of the calls.\<close>

fun factoryCalls :: "('tr, 'expr) event list \<Rightarrow> requester list" where
  "factoryCalls [] = []"
| "factoryCalls (factory_call r # es) = r # factoryCalls es"
| "factoryCalls (_ # es) = factoryCalls es"

text \<open>The objects given to \<open>External.fromJS\<close>.\<close>

fun datasets :: "('tr, 'expr) event list \<Rightarrow> 'tr external list" where
  "datasets [] = []"
| "datasets (External_fromJS ds # es) = ds # datasets es"
| "datasets (_ # es) = datasets es"

text \<open>The contexts given to \<open>expression.compute\<close>.\<close>

fun computeContexts :: "('tr, 'expr) event list \<Rightarrow> (string \<times> 'tr external) list list" where
  "computeContexts [] = []"
| "computeContexts (compute e ctx # es) = ctx # computeContexts es"
| "computeContexts (_ # es) = computeContexts es"

section \<open>The retry layer, from the specification\<close>

text \<open>
  Modelled from the spec: plywood's \<open>helper.retryRequesterFactory\<close>,
  \<open>helper.verboseRequesterFactory\<close> and \<open>helper.concurrentLimitRequesterFactory\<close> are not
  part of the repository. Section 4.2 of the specification says what the layers do: the
  retry layer, on a transport failure, retries up to \<open>retry\<close> additional times with a fixed
  delay between attempts, and passes a timeout through untouched unless \<open>retryOnTimeout\<close>
  is set; the logging layer does not alter success or failure; the concurrency layer only
  bounds how many requests are in flight, so it passes a single request through.

  A bare transport is described by its answer to each dispatch, counted from \<open>0\<close>.
  Sending one request through a requester yields the final answer, the number of dispatches
  that reached the bare transport and the delays waited between attempts (in ms).
\<close>

datatype 'a response = Success 'a | Failure | Timeout

text \<open>How many additional attempts a retry count allows: the whole ones.\<close>

fun retriesOf :: "js_number \<Rightarrow> nat" where
  "retriesOf (Number r) = nat \<lfloor>r\<rfloor>"
| "retriesOf Undefined_or_NaN = 0"

fun retrying ::
  "(nat \<Rightarrow> 'a response \<times> nat \<times> int list) \<Rightarrow> nat \<Rightarrow> int \<Rightarrow> bool \<Rightarrow> nat \<Rightarrow>
     'a response \<times> nat \<times> int list" where
  "retrying inner 0 delay retryOnTimeout k = inner k"
| "retrying inner (Suc n) delay retryOnTimeout k =
     (case inner k of
        (Success v, used, waits) \<Rightarrow> (Success v, used, waits)
      | (Timeout, used, waits) \<Rightarrow>
          if retryOnTimeout then
            (case retrying inner n delay retryOnTimeout (k + used) of
               (r, used', waits') \<Rightarrow> (r, used + used', waits @ [delay] @ waits'))
          else (Timeout, used, waits)
      | (Failure, used, waits) \<Rightarrow>
          (case retrying inner n delay retryOnTimeout (k + used) of
             (r, used', waits') \<Rightarrow> (r, used + used', waits @ [delay] @ waits')))"

fun send :: "requester \<Rightarrow> (nat \<Rightarrow> 'a response) \<Rightarrow> nat \<Rightarrow> 'a response \<times> nat \<times> int list" where
  "send (druidRequesterFactory h t) bare k = (bare k, 1, [])"
| "send (retryRequesterFactory r n delay retryOnTimeout) bare k =
     retrying (send r bare) (retriesOf n) delay retryOnTimeout k"
| "send (verboseRequesterFactory r) bare k = send r bare k"
| "send (concurrentLimitRequesterFactory r limit) bare k = send r bare k"

text \<open>
  The composition as the specification words it (sections 4.2 and 9): an ordered list of
  layers, each present under its own condition, applied to the bare transport from the
  first (innermost) to the last (outermost).
\<close>

definition layers ::
  "js_number \<Rightarrow> bool \<Rightarrow> js_number \<Rightarrow> (requester \<Rightarrow> requester) list" where
  "layers retry verbose concurrent =
     (if positive retry then [\<lambda>r. retryRequesterFactory r retry 500 False] else []) @
     (if verbose then [verboseRequesterFactory] else []) @
     (if positive concurrent then [\<lambda>r. concurrentLimitRequesterFactory r concurrent]
      else [])"

definition decorated :: "requester \<Rightarrow> (requester \<Rightarrow> requester) list \<Rightarrow> requester" where
  "decorated bare ls = foldl (\<lambda>r layer. layer r) bare ls"

text \<open>The requesters that exist on the way: the bare one, then one more per layer.\<close>

fun applied :: "requester \<Rightarrow> (requester \<Rightarrow> requester) list \<Rightarrow> requester list" where
  "applied r [] = [r]"
| "applied r (layer # ls) = r # applied (layer r) ls"

section \<open>A test double of the collaborators\<close>

text \<open>
  Modelled from the spec: the built-in \<open>Date\<close>, chronoshift's \<open>Duration\<close>, plywood's
  \<open>TimeRange\<close> and its SQL parser are not part of the repository. To run the model on the
  inputs of section 8 of the specification, \<open>testLib\<close> implements the part of them that
  those inputs use: instants written \<open>YYYY-MM-DDTHH:MM:SSZ\<close> (optionally with \<open>.sss\<close>
  before the \<open>Z\<close>), durations of one span of fixed length in the UTC calendar
  (\<open>PnW\<close>, \<open>PnD\<close>, \<open>PTnH\<close>, \<open>PTnM\<close>, \<open>PTnS\<close>), measured in milliseconds, time ranges as the
  pair of their ends, and a parser that knows three queries. Moving a \<open>null\<close> date throws,
  as dereferencing \<open>null\<close> does.
\<close>

record timeRange =
  range_start :: "date option"
  range_end :: "date option"

definition digitOf :: "char \<Rightarrow> int option" where
  "digitOf c = map_of (zip ''0123456789'' [0, 1, 2, 3, 4, 5, 6, 7, 8, 9]) c"

fun numberOf :: "int \<Rightarrow> string \<Rightarrow> int option" where
  "numberOf acc [] = Some acc"
| "numberOf acc (c # cs) =
     (case digitOf c of None \<Rightarrow> None | Some d \<Rightarrow> numberOf (10 * acc + d) cs)"

definition field :: "string \<Rightarrow> nat \<Rightarrow> nat \<Rightarrow> int option" where
  "field s from len = (if len = 0 then None else numberOf 0 (take len (drop from s)))"

definition daysFromCivil :: "int \<Rightarrow> int \<Rightarrow> int \<Rightarrow> int" where
  "daysFromCivil y m d =
     (let y' = (if m \<le> 2 then y - 1 else y);
          era = y' div 400;
          yoe = y' - era * 400;
          doy = (153 * (if m > 2 then m - 3 else m + 9) + 2) div 5 + d - 1;
          doe = yoe * 365 + yoe div 4 - yoe div 100 + doy
      in era * 146097 + doe - 719468)"

definition civilFromDays :: "int \<Rightarrow> int \<times> int \<times> int" where
  "civilFromDays z =
     (let z' = z + 719468;
          era = z' div 146097;
          doe = z' - era * 146097;
          yoe = (doe - doe div 1460 + doe div 36524 - doe div 146096) div 365;
          doy = doe - (365 * yoe + yoe div 4 - yoe div 100);
          mp = (5 * doy + 2) div 153;
          d = doy - (153 * mp + 2) div 5 + 1;
          m = (if mp < 10 then mp + 3 else mp - 9);
          y = yoe + era * 400
      in (if m \<le> 2 then y + 1 else y, m, d))"

definition daysInMonth :: "int \<Rightarrow> int \<Rightarrow> int" where
  "daysInMonth y m = daysFromCivil (if m = 12 then y + 1 else y) (if m = 12 then 1 else m + 1) 1
                     - daysFromCivil y m 1"

definition test_Date_parse :: "string \<Rightarrow> date" where
  "test_Date_parse s =
     (if (length s = 20 \<or> (length s = 24 \<and> s ! 19 = CHR ''.'')) \<and>
         s ! 4 = CHR ''-'' \<and> s ! 7 = CHR ''-'' \<and> s ! 10 = CHR ''T'' \<and>
         s ! 13 = CHR '':'' \<and> s ! 16 = CHR '':'' \<and> last s = CHR ''Z''
      then
        (case (field s 0 4, field s 5 2, field s 8 2, field s 11 2, field s 14 2, field s 17 2,
               if length s = 24 then field s 20 3 else Some 0) of
           (Some y, Some m, Some d, Some h, Some mi, Some sec, Some ms) \<Rightarrow>
             if 1 \<le> m \<and> m \<le> 12 \<and> 1 \<le> d \<and> d \<le> daysInMonth y m \<and>
                h \<le> 23 \<and> mi \<le> 59 \<and> sec \<le> 59
             then Date ((((daysFromCivil y m d * 24 + h) * 60 + mi) * 60 + sec) * 1000 + ms)
             else Invalid_Date
         | _ \<Rightarrow> Invalid_Date)
      else Invalid_Date)"

definition digitChar :: "int \<Rightarrow> char" where
  "digitChar d = ''0123456789'' ! nat (d mod 10)"

fun padded :: "nat \<Rightarrow> int \<Rightarrow> string" where
  "padded 0 n = []"
| "padded (Suc w) n = padded w (n div 10) @ [digitChar n]"

text \<open>\<open>toISOString\<close> of a valid date of the years 0 to 9999 (the test double is only asked
  for those); an invalid date throws in JavaScript, which \<open>cli.ts\<close> never triggers because it
  only formats \<open>new Date()\<close>.\<close>

definition test_toISOString :: "date \<Rightarrow> string" where
  "test_toISOString dt =
     (case dt of
        Invalid_Date \<Rightarrow> ''Invalid Date''
      | Date t \<Rightarrow>
          (case civilFromDays (t div 86400000) of
             (y, m, d) \<Rightarrow>
               let r = t mod 86400000 in
               padded 4 y @ ''-'' @ padded 2 m @ ''-'' @ padded 2 d @ ''T'' @
               padded 2 (r div 3600000) @ '':'' @ padded 2 (r div 60000 mod 60) @ '':'' @
               padded 2 (r div 1000 mod 60) @ ''.'' @ padded 3 (r mod 1000) @ ''Z''))"

definition test_Duration_fromJS :: "string \<Rightarrow> js_error + int" where
  "test_Duration_fromJS s =
     (let bad = Inl (Error (''Can not parse duration '' @ s)) in
      if length s < 3 \<or> \<not> startsWithP s then bad
      else
        let timePart = (s ! 1 = CHR ''T'');
            digits = butlast (drop (if timePart then 2 else 1) s);
            unit = last s
        in
        case field digits 0 (length digits) of
          None \<Rightarrow> bad
        | Some n \<Rightarrow>
            if n = 0 then bad
            else if \<not> timePart \<and> unit = CHR ''W'' then Inr (n * 604800000)
            else if \<not> timePart \<and> unit = CHR ''D'' then Inr (n * 86400000)
            else if timePart \<and> unit = CHR ''H'' then Inr (n * 3600000)
            else if timePart \<and> unit = CHR ''M'' then Inr (n * 60000)
            else if timePart \<and> unit = CHR ''S'' then Inr (n * 1000)
            else bad)"

fun test_Duration_move :: "int \<Rightarrow> date option \<Rightarrow> timezone \<Rightarrow> int \<Rightarrow> js_error + date option" where
  "test_Duration_move d None tz step = Inl (TypeError ''Cannot read property valueOf of null'')"
| "test_Duration_move d (Some Invalid_Date) tz step = Inr (Some Invalid_Date)"
| "test_Duration_move d (Some (Date t)) tz step = Inr (Some (Date (t + step * d)))"

definition test_TimeRange_fromJS :: "date option \<Rightarrow> date option \<Rightarrow> js_error + timeRange" where
  "test_TimeRange_fromJS s e = Inr \<lparr>range_start = s, range_end = e\<rparr>"

definition test_parseSQL :: "string \<Rightarrow> js_error + string sqlParse" where
  "test_parseSQL q =
     (if q = ''SELECT * FROM bar''
      then Inr \<lparr>verb = ''SELECT'', expression = q, table = Some ''bar''\<rparr>
      else if q = ''DESCRIBE bar''
      then Inr \<lparr>verb = ''DESCRIBE'', expression = q, table = Some ''bar''\<rparr>
      else if q = ''SELECT 1''
      then Inr \<lparr>verb = ''SELECT'', expression = q, table = None\<rparr>
      else Inl (Error ''SQL parse error''))"

definition testLib :: "(int, timeRange, string) lib" where
  "testLib =
     \<lparr>Date_parse = test_Date_parse,
      toISOString = test_toISOString,
      Duration_fromJS = test_Duration_fromJS,
      Duration_move = test_Duration_move,
      TimeRange_fromJS = test_TimeRange_fromJS,
      parseSQL = test_parseSQL,
      JSON_stringify = (\<lambda>e. e)\<rparr>"

text \<open>The flags of an invocation that gives no flag at all.\<close>

definition noFlags :: parsed where
  "noFlags =
     \<lparr>argv_original = [], host_flag = None, druid_flag = None, data_source_flag = None,
      help_flag = False, query_flag = None, interval_flag = None, version_flag = False,
      verbose_flag = False, timeout_flag = None, retry_flag = None, concurrent_flag = None,
      output_flag = None, allow_flag = None, force_unique_flag = None,
      force_histogram_flag = None, skip_cache_flag = False,
      introspection_strategy_flag = None\<rparr>"

text \<open>
  Invocations used as examples, given as the command argument of \<open>run\<close>: a query on
  table \<open>bar\<close> with \<open>--data-source foo\<close>, logging, five retries, one request at a time and
  three forced attributes; the same query with an output format that does not exist; a query
  without a host; the query with no \<open>--data-source\<close>; and a query that names no table.
\<close>

definition exampleCommand :: parsed where
  "exampleCommand =
     noFlags\<lparr>host_flag := Some ''10.20.30.40'', data_source_flag := Some ''foo'',
       query_flag := Some ''SELECT * FROM bar'', verbose_flag := True,
       retry_flag := Some (Number 5), concurrent_flag := Some (Number 1),
       force_unique_flag := Some [''user'', ''user''],
       force_histogram_flag := Some [''delta'']\<rparr>"

text \<open>
  The same invocation from the command line (\<open>run()\<close> with the flags that nopt returns
  for these arguments), and a command-line invocation with \<open>--retry 0 --concurrent 0\<close>.
\<close>

definition exampleArgs :: parsed where
  "exampleArgs =
     exampleCommand\<lparr>argv_original :=
       [''-h'', ''10.20.30.40'', ''-d'', ''foo'', ''-q'', ''SELECT * FROM bar'', ''-v'',
        ''-r'', ''5'', ''-c'', ''1'', ''-fu'', ''user'', ''-fu'', ''user'', ''-fh'', ''delta'']\<rparr>"

definition plainArgs :: parsed where
  "plainArgs =
     noFlags\<lparr>argv_original :=
         [''-h'', ''10.20.30.40'', ''-q'', ''SELECT * FROM bar'', ''-r'', ''0'', ''-c'', ''0''],
       host_flag := Some ''10.20.30.40'', query_flag := Some ''SELECT * FROM bar'',
       retry_flag := Some (Number 0), concurrent_flag := Some (Number 0)\<rparr>"

definition xmlCommand :: parsed where
  "xmlCommand =
     noFlags\<lparr>host_flag := Some ''10.20.30.40'', query_flag := Some ''SELECT * FROM bar'',
       output_flag := Some ''XML''\<rparr>"

definition noHostCommand :: parsed where
  "noHostCommand = noFlags\<lparr>query_flag := Some ''SELECT * FROM bar''\<rparr>"



section \<open>Properties of the splitting\<close>

lemma length_split_str: "length (split_str sep s) = Suc (count_list s sep)"
  by (induction s) (auto split: list.splits)

lemma split_str_no_sep: "sep \<notin> set a \<Longrightarrow> split_str sep a = [a]"
  by (induction a) auto

lemma split_str_append:
  "sep \<notin> set a \<Longrightarrow> split_str sep (a @ sep # b) = a # split_str sep b"
  by (induction a) auto

lemma split_str_two:
  "sep \<notin> set a \<Longrightarrow> sep \<notin> set b \<Longrightarrow> split_str sep (a @ sep # b) = [a, b]"
  by (simp add: split_str_append split_str_no_sep)

section \<open>The paths through run\<close>

text \<open>
  Every invocation takes one of four kinds of path: it only prints (usage, version, a bad
  flag, no host, no query); it calls the SQL parser and then prints an error; it builds the
  transport and fails on the interval; or it reaches \<open>External.fromJS\<close> and starts the query.
\<close>

lemma calls_of_layers:
  "map factory_call (applied bare (layers retry verbose concurrent)) =
     (let r1 = (if positive retry then retryRequesterFactory bare retry 500 False else bare);
          r2 = (if verbose then verboseRequesterFactory r1 else r1);
          r3 = (if positive concurrent then concurrentLimitRequesterFactory r2 concurrent
                else r2)
      in [factory_call bare] @ (if positive retry then [factory_call r1] else []) @
         (if verbose then [factory_call r2] else []) @
         (if positive concurrent then [factory_call r3] else []))"
  by (simp add: layers_def Let_def)

lemma decorated_layers:
  "decorated bare (layers retry verbose concurrent) =
     (let r1 = (if positive retry then retryRequesterFactory bare retry 500 False else bare);
          r2 = (if verbose then verboseRequesterFactory r1 else r1)
      in if positive concurrent then concurrentLimitRequesterFactory r2 concurrent else r2)"
  by (simp add: decorated_def layers_def Let_def)

lemma pushOverrides_map:
  "pushOverrides acc kind ns = acc @ map (\<lambda>n. \<lparr>name = n, special = kind\<rparr>) ns"
  by (induction ns arbitrary: acc) auto

lemma run_cases:
  fixes L :: "('dur, 'tr, 'expr) lib"
  assumes P: "(case command of Some c \<Rightarrow> c | None \<Rightarrow> args) = p"
  obtains
    (prints) "list_all isPrint (fst (run L args now command))"
             "snd (run L args now command) = Undefined"
             "(command = None \<and> (argv_original p = [] \<or> help_flag p)) \<or> version_flag p \<or>
              unexpectedAllow (case allow_flag p of Some a \<Rightarrow> a | None \<Rightarrow> []) \<noteq> None \<or>
              toLowerCase (case truthy (output_flag p) of Some s \<Rightarrow> s | None \<Rightarrow> ''json'')
                \<notin> {''json'', ''csv'', ''tsv'', ''flat''} \<or>
              truthy (js_or (druid_flag p) (host_flag p)) = None \<or>
              truthy (query_flag p) = None"
  | (sql) q evs where
      "truthy (query_flag p) = Some q"
      "run L args now command = (Expression_parseSQL q # evs, Undefined)"
      "list_all isPrint evs"
      "\<not> (command = None \<and> (argv_original p = [] \<or> help_flag p))" "\<not> version_flag p"
      "unexpectedAllow (case allow_flag p of Some a \<Rightarrow> a | None \<Rightarrow> []) = None"
      "toLowerCase (case truthy (output_flag p) of Some s \<Rightarrow> s | None \<Rightarrow> ''json'')
         \<in> {''json'', ''csv'', ''tsv'', ''flat''}"
      "truthy (js_or (druid_flag p) (host_flag p)) \<noteq> None"
      "(\<exists>e. parseSQL L q = Inl e) \<or>
       (\<exists>sp. parseSQL L q = Inr sp \<and> \<not> (verb sp = ''SELECT'' \<or> verb sp = ''DESCRIBE'')) \<or>
       (\<exists>sp evs'. parseSQL L q = Inr sp \<and> truthy (data_source_flag p) = None \<and>
          truthy (table sp) = None \<and> list_all isPrint evs' \<and>
          evs = evs' @ [console_log [''must have data source'']])"
  | (interval) h q sp dn dsrc evs iv e where
      "\<not> (command = None \<and> (argv_original p = [] \<or> help_flag p))" "\<not> version_flag p"
      "unexpectedAllow (case allow_flag p of Some a \<Rightarrow> a | None \<Rightarrow> []) = None"
      "toLowerCase (case truthy (output_flag p) of Some s \<Rightarrow> s | None \<Rightarrow> ''json'')
         \<in> {''json'', ''csv'', ''tsv'', ''flat''}"
      "truthy (js_or (druid_flag p) (host_flag p)) = Some h"
      "truthy (query_flag p) = Some q"
      "parseSQL L q = Inr sp"
      "verb sp = ''SELECT'' \<or> verb sp = ''DESCRIBE''"
      "(truthy (data_source_flag p) = Some dsrc \<and> dn = ''data'') \<or>
       (truthy (data_source_flag p) = None \<and> truthy (table sp) = Some dsrc \<and> dn = dsrc)"
      "list_all isPrint evs"
      "truthy (interval_flag p) = Some iv" "parseIntervalString L now iv = Inl e"
      "run L args now command =
         (Expression_parseSQL q # evs @
          map factory_call
            (applied
               (druidRequesterFactory h (case timeout_flag p of Some t \<Rightarrow> t | None \<Rightarrow> Number 60000))
               (layers (case retry_flag p of Some r \<Rightarrow> r | None \<Rightarrow> Number 2) (verbose_flag p)
                  (case concurrent_flag p of Some c \<Rightarrow> c | None \<Rightarrow> Number 2))) @
          [console_log [''Could not parse interval'', iv], console_log [message e]],
          Undefined)"
  | (query) h q sp dn dsrc evs flt ds where
      "\<not> (command = None \<and> (argv_original p = [] \<or> help_flag p))" "\<not> version_flag p"
      "unexpectedAllow (case allow_flag p of Some a \<Rightarrow> a | None \<Rightarrow> []) = None"
      "toLowerCase (case truthy (output_flag p) of Some s \<Rightarrow> s | None \<Rightarrow> ''json'')
         \<in> {''json'', ''csv'', ''tsv'', ''flat''}"
      "truthy (js_or (druid_flag p) (host_flag p)) = Some h"
      "truthy (query_flag p) = Some q"
      "parseSQL L q = Inr sp"
      "verb sp = ''SELECT'' \<or> verb sp = ''DESCRIBE''"
      "(truthy (data_source_flag p) = Some dsrc \<and> dn = ''data'') \<or>
       (truthy (data_source_flag p) = None \<and> truthy (table sp) = Some dsrc \<and> dn = dsrc)"
      "list_all isPrint evs"
      "(truthy (interval_flag p) = None \<and> flt = None) \<or>
       (\<exists>iv r. truthy (interval_flag p) = Some iv \<and> parseIntervalString L now iv = Inr r \<and>
          flt = Some (ref_in ''__time'' r))"
      "ds = \<lparr>engine = ''druid'', dataSource = dsrc, timeAttribute = ''__time'',
              allowEternity =
                List.member (case allow_flag p of Some a \<Rightarrow> a | None \<Rightarrow> []) ''eternity'',
              allowSelectQueries =
                List.member (case allow_flag p of Some a \<Rightarrow> a | None \<Rightarrow> []) ''select'',
              introspectionStrategy = introspection_strategy_flag p,
              time_filter = flt,
              requester =
                decorated
                  (druidRequesterFactory h
                     (case timeout_flag p of Some t \<Rightarrow> t | None \<Rightarrow> Number 60000))
                  (layers (case retry_flag p of Some r \<Rightarrow> r | None \<Rightarrow> Number 2) (verbose_flag p)
                     (case concurrent_flag p of Some c \<Rightarrow> c | None \<Rightarrow> Number 2)),
              attributeOverrides =
                map (\<lambda>n. \<lparr>name = n, special = ''unique''\<rparr>)
                  (case force_unique_flag p of Some a \<Rightarrow> a | None \<Rightarrow> []) @
                map (\<lambda>n. \<lparr>name = n, special = ''histogram''\<rparr>)
                  (case force_histogram_flag p of Some a \<Rightarrow> a | None \<Rightarrow> []),
              context_field =
                (if skip_cache_flag p
                 then \<lparr>context_timeout = (case timeout_flag p of Some t \<Rightarrow> t | None \<Rightarrow> Number 60000),
                       useCache = Some False, populateCache = Some False\<rparr>
                 else \<lparr>context_timeout = (case timeout_flag p of Some t \<Rightarrow> t | None \<Rightarrow> Number 60000),
                       useCache = None, populateCache = None\<rparr>)\<rparr>"
      "run L args now command =
         (Expression_parseSQL q # evs @
          map factory_call
            (applied
               (druidRequesterFactory h (case timeout_flag p of Some t \<Rightarrow> t | None \<Rightarrow> Number 60000))
               (layers (case retry_flag p of Some r \<Rightarrow> r | None \<Rightarrow> Number 2) (verbose_flag p)
                  (case concurrent_flag p of Some c \<Rightarrow> c | None \<Rightarrow> Number 2))) @
          [External_fromJS ds,
           if verb sp = ''DESCRIBE'' then introspect ds else compute (expression sp) [(dn, ds)]],
          if command = None then Undefined else Promise)"
proof (cases "command = None \<and> (argv_original p = [] \<or> help_flag p)")
  case True
  then have "run L args now command = ([printUsage], Undefined)"
    using P by (simp add: run_def Let_def)
  then show thesis using prints True by simp
next
  case c1: False
  show thesis
  proof (cases "version_flag p")
    case True
    then have "run L args now command = ([printVersion], Undefined)"
      using P c1 by (simp add: run_def Let_def)
    then show thesis using prints True by simp
  next
    case c2: False
    show thesis
    proof (cases "unexpectedAllow (case allow_flag p of Some a \<Rightarrow> a | None \<Rightarrow> [])")
      case (Some a)
      then have "run L args now command = ([console_log [''Unexpected allow'', a]], Undefined)"
        using P c1 c2 by (simp add: run_def Let_def)
      then show thesis using prints Some by simp
    next
      case c3: None
      show thesis
      proof (cases "toLowerCase (case truthy (output_flag p) of Some s \<Rightarrow> s | None \<Rightarrow> ''json'')
                      \<in> {''json'', ''csv'', ''tsv'', ''flat''}")
        case False
        then have "run L args now command =
            ([console_log [''output must be one of json, csv, tsv, or flat (is '' @
                toLowerCase (case truthy (output_flag p) of Some s \<Rightarrow> s | None \<Rightarrow> ''json'') @
                ''})'']], Undefined)"
          using P c1 c2 c3 by (simp add: run_def Let_def)
        then show thesis using prints False by simp
      next
        case c4: True
        show thesis
        proof (cases "truthy (js_or (druid_flag p) (host_flag p))")
          case None
          then have "run L args now command = ([console_log [''must have a host'']], Undefined)"
            using P c1 c2 c3 c4 by (simp add: run_def Let_def)
          then show thesis using prints None by simp
        next
          case c5: (Some h)
          show thesis
          proof (cases "truthy (query_flag p)")
            case None
            then have "run L args now command =
                ([console_log [''no query found please use --query (-q) flag'']], Undefined)"
              using P c1 c2 c3 c4 c5 by (simp add: run_def Let_def)
            then show thesis using prints None by simp
          next
            case c6: (Some q)
            show thesis
            proof (cases "parseSQL L q")
              case (Inl e)
              then have "run L args now command =
                  (Expression_parseSQL q #
                   [console_log [''Could not parse query as SQL:'', message e]], Undefined)"
                using P c1 c2 c3 c4 c5 c6 by (simp add: run_def Let_def)
              then show thesis using sql c1 c2 c3 c4 c5 c6 Inl by simp
            next
              case c7: (Inr sp)
              show thesis
              proof (cases "verb sp = ''SELECT'' \<or> verb sp = ''DESCRIBE''")
                case False
                then have "run L args now command =
                    (Expression_parseSQL q #
                     [console_log [''SQL must be a SELECT or DESCRIBE query'']], Undefined)"
                  using P c1 c2 c3 c4 c5 c6 c7 by (simp add: run_def Let_def)
                then show thesis using sql c1 c2 c3 c4 c5 c6 c7 False by simp
              next
                case c8: True
                let ?V = "if verbose_flag p then
                    [console_log [''Parsed query as the following plywood expression (as JSON):''],
                     console_log [JSON_stringify L (expression sp)],
                     console_log [''---------------------------'']]
                  else ([] :: ('tr, 'expr) event list)"
                have V: "list_all isPrint ?V" by simp
                let ?res = "case truthy (data_source_flag p) of
                    Some d \<Rightarrow> Some (''data'', d)
                  | None \<Rightarrow> (case truthy (table sp) of Some t \<Rightarrow> Some (t, t) | None \<Rightarrow> None)"
                show thesis
                proof (cases ?res)
                  case None
                  then have "run L args now command =
                      (Expression_parseSQL q # ?V @ [console_log [''must have data source'']],
                       Undefined)"
                    using P c1 c2 c3 c4 c5 c6 c7 c8 by (simp add: run_def Let_def)
                  moreover have "truthy (data_source_flag p) = None \<and> truthy (table sp) = None"
                    using None by (simp split: option.splits)
                  then have "(\<exists>e. parseSQL L q = Inl e) \<or>
                     (\<exists>sp. parseSQL L q = Inr sp \<and>
                        \<not> (verb sp = ''SELECT'' \<or> verb sp = ''DESCRIBE'')) \<or>
                     (\<exists>sp evs'. parseSQL L q = Inr sp \<and> truthy (data_source_flag p) = None \<and>
                        truthy (table sp) = None \<and> list_all isPrint evs' \<and>
                        ?V @ [console_log [''must have data source'']] =
                          evs' @ [console_log [''must have data source'']])"
                    using c7 V by blast
                  ultimately show thesis using sql c1 c2 c3 c4 c5 c6 by simp
                next
                  case (Some pair)
                  then obtain dn dsrc where c9: "?res = Some (dn, dsrc)"
                    by (cases pair) simp
                  have rel: "(truthy (data_source_flag p) = Some dsrc \<and> dn = ''data'') \<or>
                     (truthy (data_source_flag p) = None \<and> truthy (table sp) = Some dsrc \<and> dn = dsrc)"
                    using c9 by (auto split: option.splits)
                  let ?ds = "\<lambda>flt. \<lparr>engine = ''druid'', dataSource = dsrc, timeAttribute = ''__time'',
                  allowEternity =
                    List.member (case allow_flag p of Some a \<Rightarrow> a | None \<Rightarrow> []) ''eternity'',
                  allowSelectQueries =
                    List.member (case allow_flag p of Some a \<Rightarrow> a | None \<Rightarrow> []) ''select'',
                  introspectionStrategy = introspection_strategy_flag p,
                  time_filter = flt,
                  requester =
                    decorated
                      (druidRequesterFactory h
                         (case timeout_flag p of Some t \<Rightarrow> t | None \<Rightarrow> Number 60000))
                      (layers (case retry_flag p of Some r \<Rightarrow> r | None \<Rightarrow> Number 2) (verbose_flag p)
                         (case concurrent_flag p of Some c \<Rightarrow> c | None \<Rightarrow> Number 2)),
                  attributeOverrides =
                    map (\<lambda>n. \<lparr>name = n, special = ''unique''\<rparr>)
                      (case force_unique_flag p of Some a \<Rightarrow> a | None \<Rightarrow> []) @
                    map (\<lambda>n. \<lparr>name = n, special = ''histogram''\<rparr>)
                      (case force_histogram_flag p of Some a \<Rightarrow> a | None \<Rightarrow> []),
                  context_field =
                    (if skip_cache_flag p
                     then \<lparr>context_timeout = (case timeout_flag p of Some t \<Rightarrow> t | None \<Rightarrow> Number 60000),
                           useCache = Some False, populateCache = Some False\<rparr>
                     else \<lparr>context_timeout = (case timeout_flag p of Some t \<Rightarrow> t | None \<Rightarrow> Number 60000),
                           useCache = None, populateCache = None\<rparr>)\<rparr>"
                  show thesis
                  proof (cases "truthy (interval_flag p)")
                    case None
                    have F: "(truthy (interval_flag p) = None \<and> (None :: 'tr time_filter option) = None) \<or>
                       (\<exists>iv r. truthy (interval_flag p) = Some iv \<and>
                          parseIntervalString L now iv = Inr r \<and>
                          (None :: 'tr time_filter option) = Some (ref_in ''__time'' r))"
                      using None by simp
                    have R: "run L args now command =
                       (Expression_parseSQL q # ?V @
                        map factory_call
                (applied
                   (druidRequesterFactory h (case timeout_flag p of Some t \<Rightarrow> t | None \<Rightarrow> Number 60000))
                   (layers (case retry_flag p of Some r \<Rightarrow> r | None \<Rightarrow> Number 2) (verbose_flag p)
                      (case concurrent_flag p of Some c \<Rightarrow> c | None \<Rightarrow> Number 2))) @
                        [External_fromJS (?ds None),
                         if verb sp = ''DESCRIBE'' then introspect (?ds None)
                         else compute (expression sp) [(dn, ?ds None)]],
                        if command = None then Undefined else Promise)"
                      using P c1 c2 c3 c4 c5 c6 c7 c8 c9 None
                      by (auto simp add: run_def calls_of_layers decorated_layers
                            pushOverrides_map Let_def)
                    show thesis
                      by (rule query [OF c1 c2 c3 c4 c5 c6 c7 c8 rel V F refl R])
                  next
                    case c10: (Some iv)
                    show thesis
                    proof (cases "parseIntervalString L now iv")
                      case (Inl e)
                      have R: "run L args now command =
                         (Expression_parseSQL q # ?V @
                          map factory_call
                (applied
                   (druidRequesterFactory h (case timeout_flag p of Some t \<Rightarrow> t | None \<Rightarrow> Number 60000))
                   (layers (case retry_flag p of Some r \<Rightarrow> r | None \<Rightarrow> Number 2) (verbose_flag p)
                      (case concurrent_flag p of Some c \<Rightarrow> c | None \<Rightarrow> Number 2))) @
                          [console_log [''Could not parse interval'', iv], console_log [message e]],
                          Undefined)"
                        using P c1 c2 c3 c4 c5 c6 c7 c8 c9 c10 Inl
                        by (auto simp add: run_def calls_of_layers decorated_layers
                              pushOverrides_map Let_def)
                      show thesis
                        by (rule interval [OF c1 c2 c3 c4 c5 c6 c7 c8 rel V c10 Inl R])
                    next
                      case (Inr r)
                      have F: "(truthy (interval_flag p) = None \<and> Some (ref_in ''__time'' r) = None) \<or>
                         (\<exists>iv r'. truthy (interval_flag p) = Some iv \<and>
                            parseIntervalString L now iv = Inr r' \<and>
                            Some (ref_in ''__time'' r) = Some (ref_in ''__time'' r'))"
                        using c10 Inr by simp
                      have R: "run L args now command =
                         (Expression_parseSQL q # ?V @
                          map factory_call
                (applied
                   (druidRequesterFactory h (case timeout_flag p of Some t \<Rightarrow> t | None \<Rightarrow> Number 60000))
                   (layers (case retry_flag p of Some r \<Rightarrow> r | None \<Rightarrow> Number 2) (verbose_flag p)
                      (case concurrent_flag p of Some c \<Rightarrow> c | None \<Rightarrow> Number 2))) @
                          [External_fromJS (?ds (Some (ref_in ''__time'' r))),
                           if verb sp = ''DESCRIBE''
                           then introspect (?ds (Some (ref_in ''__time'' r)))
                           else compute (expression sp) [(dn, ?ds (Some (ref_in ''__time'' r)))]],
                          if command = None then Undefined else Promise)"
                        using P c1 c2 c3 c4 c5 c6 c7 c8 c9 c10 Inr
                        by (auto simp add: run_def calls_of_layers decorated_layers
                              pushOverrides_map Let_def)
                      show thesis
                        by (rule query [OF c1 c2 c3 c4 c5 c6 c7 c8 rel V F refl R])
                    qed
                  qed
                qed
              qed
            qed
          qed
        qed
      qed
    qed
  qed
qed

section \<open>Reading the trace of a path\<close>

lemma prints_factoryCalls: "list_all isPrint evs \<Longrightarrow> factoryCalls evs = []"
  by (induction evs rule: factoryCalls.induct) auto

lemma prints_datasets: "list_all isPrint evs \<Longrightarrow> datasets evs = []"
  by (induction evs rule: datasets.induct) auto

lemma prints_computeContexts: "list_all isPrint evs \<Longrightarrow> computeContexts evs = []"
  by (induction evs rule: computeContexts.induct) auto

lemma factoryCalls_append: "factoryCalls (a @ b) = factoryCalls a @ factoryCalls b"
  by (induction a rule: factoryCalls.induct) auto

lemma datasets_append: "datasets (a @ b) = datasets a @ datasets b"
  by (induction a rule: datasets.induct) auto

lemma computeContexts_append: "computeContexts (a @ b) = computeContexts a @ computeContexts b"
  by (induction a rule: computeContexts.induct) auto

lemma factoryCalls_map: "factoryCalls (map factory_call rs) = rs"
  by (induction rs) auto

lemma datasets_map: "datasets (map factory_call rs) = []"
  by (induction rs) auto

lemma computeContexts_map: "computeContexts (map factory_call rs) = []"
  by (induction rs) auto

lemmas trace_simps =
  prints_factoryCalls prints_datasets prints_computeContexts
  factoryCalls_append datasets_append computeContexts_append
  factoryCalls_map datasets_map computeContexts_map

lemma run_dataset:
  fixes L :: "('dur, 'tr, 'expr) lib"
  assumes P: "(case command of Some c \<Rightarrow> c | None \<Rightarrow> args) = p"
      and D: "ds \<in> set (datasets (fst (run L args now command)))"
  obtains h q sp dn dsrc where
      "truthy (js_or (druid_flag p) (host_flag p)) = Some h"
      "truthy (query_flag p) = Some q"
      "parseSQL L q = Inr sp"
      "(truthy (data_source_flag p) = Some dsrc \<and> dn = ''data'') \<or>
       (truthy (data_source_flag p) = None \<and> truthy (table sp) = Some dsrc \<and> dn = dsrc)"
      "dataSource ds = dsrc"
      "requester ds =
         decorated
           (druidRequesterFactory h (case timeout_flag p of Some t \<Rightarrow> t | None \<Rightarrow> Number 60000))
           (layers (case retry_flag p of Some r \<Rightarrow> r | None \<Rightarrow> Number 2) (verbose_flag p)
              (case concurrent_flag p of Some c \<Rightarrow> c | None \<Rightarrow> Number 2))"
      "attributeOverrides ds =
         map (\<lambda>n. \<lparr>name = n, special = ''unique''\<rparr>)
           (case force_unique_flag p of Some a \<Rightarrow> a | None \<Rightarrow> []) @
         map (\<lambda>n. \<lparr>name = n, special = ''histogram''\<rparr>)
           (case force_histogram_flag p of Some a \<Rightarrow> a | None \<Rightarrow> [])"
      "datasets (fst (run L args now command)) = [ds]"
      "computeContexts (fst (run L args now command)) =
         (if verb sp = ''DESCRIBE'' then [] else [[(dn, ds)]])"
  using P
proof (cases rule: run_cases [where L = L and now = now])
  case prints
  then show ?thesis using D by (simp add: trace_simps)
next
  case (sql q evs)
  then show ?thesis using D by (simp add: trace_simps)
next
  case (interval h q sp dn dsrc evs iv e)
  then show ?thesis using D by (simp add: trace_simps)
next
  case (query h q sp dn dsrc evs flt ds')
  have tr: "datasets (fst (run L args now command)) = [ds']"
    using query(10,13) by (simp add: trace_simps)
  then have eq: "ds = ds'" using D by simp
  have cc: "computeContexts (fst (run L args now command)) =
         (if verb sp = ''DESCRIBE'' then [] else [[(dn, ds)]])"
    using query(10,13) eq by (simp add: trace_simps)
  show ?thesis
    by (rule that [OF query(5) query(6) query(7) query(9) _ _ _ _ cc])
       (simp_all add: eq query(12) tr)
qed

lemma truthy_js_or_None: "truthy a = None \<Longrightarrow> truthy b = None \<Longrightarrow> truthy (js_or a b) = None"
  by (simp add: js_or_def)

section \<open>One request through the layers\<close>

lemma send_bare: "send (druidRequesterFactory h t) bare = (\<lambda>k. (bare k, Suc 0, []))"
  by (rule ext) simp

lemma retriesOf_not_positive: "\<not> positive v \<Longrightarrow> retriesOf v = 0"
  by (cases v) (simp_all add: floor_le_zero)

lemma send_decorated:
  "send (decorated (druidRequesterFactory h t) (layers retry verbose concurrent)) bare k =
     retrying (\<lambda>k. (bare k, Suc 0, [])) (retriesOf retry) 500 False k"
proof (cases "positive retry")
  case True
  then show ?thesis by (simp add: decorated_layers send_bare Let_def)
next
  case False
  then show ?thesis by (simp add: decorated_layers Let_def retriesOf_not_positive)
qed

lemma retrying_timeout:
  "retrying (\<lambda>k. (Timeout, Suc 0, [])) n delay False k = (Timeout, Suc 0, [])"
  by (cases n) simp_all

lemma retrying_failure:
  "retrying (\<lambda>k. (Failure, Suc 0, [])) n delay rot k = (Failure, Suc n, replicate n delay)"
  by (induction n arbitrary: k) simp_all

lemma retrying_bound:
  "fst (snd (retrying (\<lambda>k. (bare k, Suc 0, [])) n delay rot k)) \<le> Suc n"
proof (induction n arbitrary: k)
  case 0
  show ?case by simp
next
  case (Suc n)
  have "fst (snd (retrying (\<lambda>k. (bare k, Suc 0, [])) n delay rot (Suc k))) \<le> Suc n"
    by (rule Suc.IH)
  then show ?case
    by (cases "bare k") (auto split: prod.splits)
qed

lemma retrying_stops:
  "j \<le> n \<Longrightarrow> (\<forall>i<j. bare (k + i) = Failure) \<Longrightarrow> bare (k + j) \<noteq> Failure \<Longrightarrow>
   retrying (\<lambda>k. (bare k, Suc 0, [])) n delay False k = (bare (k + j), Suc j, replicate j delay)"
proof (induction n arbitrary: k j)
  case 0
  then show ?case by simp
next
  case (Suc n)
  show ?case
  proof (cases j)
    case 0
    then have "bare k \<noteq> Failure" using Suc.prems(3) by simp
    then show ?thesis using 0 by (cases "bare k") simp_all
  next
    case (Suc j')
    have f: "bare k = Failure" using Suc.prems(2) Suc by force
    have a: "j' \<le> n" using Suc.prems(1) Suc by simp
    have b: "\<forall>i<j'. bare (Suc k + i) = Failure"
    proof (intro allI impI)
      fix i assume "i < j'"
      then have "Suc i < j" using Suc by simp
      then have "bare (k + Suc i) = Failure" using Suc.prems(2) by blast
      then show "bare (Suc k + i) = Failure" by simp
    qed
    have c: "bare (Suc k + j') \<noteq> Failure" using Suc.prems(3) Suc by simp
    have "retrying (\<lambda>k. (bare k, Suc 0, [])) n delay False (Suc k) =
            (bare (Suc k + j'), Suc j', replicate j' delay)"
      by (rule Suc.IH [OF a b c])
    then show ?thesis using f Suc by simp
  qed
qed

lemma retrying_exhausted:
  "(\<forall>i\<le>n. bare (k + i) = Failure) \<Longrightarrow>
   retrying (\<lambda>k. (bare k, Suc 0, [])) n delay rot k = (Failure, Suc n, replicate n delay)"
proof (induction n arbitrary: k)
  case 0
  then show ?case by simp
next
  case (Suc n)
  have f: "bare k = Failure" using Suc.prems by force
  have "\<forall>i\<le>n. bare (Suc k + i) = Failure"
  proof (intro allI impI)
    fix i assume "i \<le> n"
    then have "Suc i \<le> Suc n" by simp
    then have "bare (k + Suc i) = Failure" using Suc.prems by blast
    then show "bare (Suc k + i) = Failure" by simp
  qed
  then have "retrying (\<lambda>k. (bare k, Suc 0, [])) n delay rot (Suc k) =
               (Failure, Suc n, replicate n delay)"
    by (rule Suc.IH)
  then show ?case using f by simp
qed

section \<open>Invocations that build the transport and the dataset\<close>

lemma run_transport_layers_calls:
  fixes L :: "('dur, 'tr, 'expr) lib"
  assumes "parsed = (case command of Some c \<Rightarrow> c | None \<Rightarrow> args)"
      and "\<not> (command = None \<and> (argv_original parsed = [] \<or> help_flag parsed))"
      and "\<not> version_flag parsed"
      and "unexpectedAllow (case allow_flag parsed of Some a \<Rightarrow> a | None \<Rightarrow> []) = None"
      and "toLowerCase (case truthy (output_flag parsed) of Some s \<Rightarrow> s | None \<Rightarrow> ''json'')
             \<in> {''json'', ''csv'', ''tsv'', ''flat''}"
      and "truthy (js_or (druid_flag parsed) (host_flag parsed)) = Some h"
      and "truthy (query_flag parsed) = Some q"
      and "parseSQL L q = Inr sqlParse"
      and "verb sqlParse = ''SELECT'' \<or> verb sqlParse = ''DESCRIBE''"
      and "truthy (data_source_flag parsed) \<noteq> None \<or> truthy (table sqlParse) \<noteq> None"
      and "trace = fst (run L args now command)"
  shows "factoryCalls trace =
           applied
             (druidRequesterFactory h
                (case timeout_flag parsed of Some t \<Rightarrow> t | None \<Rightarrow> Number 60000))
             (layers (case retry_flag parsed of Some r \<Rightarrow> r | None \<Rightarrow> Number 2)
                (verbose_flag parsed)
                (case concurrent_flag parsed of Some c \<Rightarrow> c | None \<Rightarrow> Number 2))"
proof -
  have P: "(case command of Some c \<Rightarrow> c | None \<Rightarrow> args) = parsed"
    using assms(1) by simp
  from P show ?thesis
  proof (cases rule: run_cases [where L = L and now = now])
    case prints
    then show ?thesis using assms(2-7) by simp
  next
    case (sql q' evs)
    have q: "q' = q" using sql(1) assms(7) by simp
    from sql(9) have False
      unfolding q using assms(8,9,10) by auto
    then show ?thesis ..
  next
    case (interval h' q' sp dn dsrc evs iv e)
    have h: "h' = h" using interval(5) assms(6) by simp
    show ?thesis using interval(10,13) assms(11) h by (simp add: trace_simps)
  next
    case (query h' q' sp dn dsrc evs flt ds)
    have h: "h' = h" using query(5) assms(6) by simp
    show ?thesis using query(10,13) assms(11) h by (simp add: trace_simps)
  qed
qed

lemma run_builds_dataset:
  fixes L :: "('dur, 'tr, 'expr) lib"
  assumes "parsed = (case command of Some c \<Rightarrow> c | None \<Rightarrow> args)"
      and "\<not> (command = None \<and> (argv_original parsed = [] \<or> help_flag parsed))"
      and "\<not> version_flag parsed"
      and "unexpectedAllow (case allow_flag parsed of Some a \<Rightarrow> a | None \<Rightarrow> []) = None"
      and "toLowerCase (case truthy (output_flag parsed) of Some s \<Rightarrow> s | None \<Rightarrow> ''json'')
             \<in> {''json'', ''csv'', ''tsv'', ''flat''}"
      and "truthy (js_or (druid_flag parsed) (host_flag parsed)) = Some h"
      and "truthy (query_flag parsed) = Some q"
      and "parseSQL L q = Inr sqlParse"
      and "verb sqlParse = ''SELECT'' \<or> verb sqlParse = ''DESCRIBE''"
      and "truthy (data_source_flag parsed) \<noteq> None \<or> truthy (table sqlParse) \<noteq> None"
      and "truthy (interval_flag parsed) = None \<or>
           (\<exists>iv r. truthy (interval_flag parsed) = Some iv \<and>
              parseIntervalString L now iv = Inr r)"
      and "trace = fst (run L args now command)"
  obtains ds where "datasets trace = [ds]" "ds \<in> set (datasets (fst (run L args now command)))"
proof -
  have P: "(case command of Some c \<Rightarrow> c | None \<Rightarrow> args) = parsed"
    using assms(1) by simp
  from P show ?thesis
  proof (cases rule: run_cases [where L = L and now = now])
    case prints
    then show ?thesis using assms(2-7) by simp
  next
    case (sql q' evs)
    have q: "q' = q" using sql(1) assms(7) by simp
    from sql(9) have False
      unfolding q using assms(8,9,10) by auto
    then show ?thesis ..
  next
    case (interval h' q' sp dn dsrc evs iv e)
    then have False using assms(11) by auto
    then show ?thesis ..
  next
    case (query h' q' sp dn dsrc evs flt ds)
    have d: "datasets trace = [ds]"
      using query(10,13) assms(12) by (simp add: trace_simps)
    show ?thesis using that d assms(12) by simp
  qed
qed

section \<open>The example invocations\<close>

lemma example_flags:
  "(case None of Some c \<Rightarrow> c | None \<Rightarrow> exampleArgs) = exampleArgs"
  "argv_original exampleArgs \<noteq> []" "\<not> help_flag exampleArgs"
  "\<not> version_flag exampleArgs"
  "unexpectedAllow (case allow_flag exampleArgs of Some a \<Rightarrow> a | None \<Rightarrow> []) = None"
  "truthy (js_or (druid_flag exampleArgs) (host_flag exampleArgs)) = Some ''10.20.30.40''"
  "truthy (query_flag exampleArgs) = Some ''SELECT * FROM bar''"
  "truthy (data_source_flag exampleArgs) = Some ''foo''"
  "truthy (interval_flag exampleArgs) = None"
  "timeout_flag exampleArgs = None" "retry_flag exampleArgs = Some (Number 5)"
  "verbose_flag exampleArgs" "concurrent_flag exampleArgs = Some (Number 1)"
  "force_unique_flag exampleArgs = Some [''user'', ''user'']"
  "force_histogram_flag exampleArgs = Some [''delta'']"
  "output_flag exampleArgs = None"
  by (simp_all add: exampleArgs_def exampleCommand_def noFlags_def js_or_def)

lemma plain_flags:
  "(case None of Some c \<Rightarrow> c | None \<Rightarrow> plainArgs) = plainArgs"
  "argv_original plainArgs \<noteq> []" "\<not> help_flag plainArgs"
  "\<not> version_flag plainArgs"
  "unexpectedAllow (case allow_flag plainArgs of Some a \<Rightarrow> a | None \<Rightarrow> []) = None"
  "truthy (js_or (druid_flag plainArgs) (host_flag plainArgs)) = Some ''10.20.30.40''"
  "truthy (query_flag plainArgs) = Some ''SELECT * FROM bar''"
  "truthy (data_source_flag plainArgs) = None"
  "truthy (interval_flag plainArgs) = None"
  "timeout_flag plainArgs = None" "retry_flag plainArgs = Some (Number 0)"
  "\<not> verbose_flag plainArgs" "concurrent_flag plainArgs = Some (Number 0)"
  "output_flag plainArgs = None"
  by (simp_all add: plainArgs_def noFlags_def js_or_def)

lemma lower_json: "toLowerCase ''json'' = ''json''"
  by code_simp

lemma test_parse_bar:
  "parseSQL testLib ''SELECT * FROM bar'' =
     Inr \<lparr>verb = ''SELECT'', expression = ''SELECT * FROM bar'', table = Some ''bar''\<rparr>"
  by (simp add: testLib_def test_parseSQL_def)


section \<open>Claims about parseIntervalString\<close>

text \<open>
  Claim C7. An interval string with more than one \<open>/\<close> splits into more than two parts;
  \<open>parseIntervalString\<close> then throws the error "Can not parse string ..." and produces no
  time range, whatever the collaborators do.
\<close>

theorem parseIntervalString_more_than_one_slash:
  assumes "count_list str CHR ''/'' > 1"
  shows "parseIntervalString L now str = Inl (Error (''Can not parse string '' @ str))"
  using assms by (simp add: parseIntervalString_def length_split_str)

theorem parseIntervalString_more_than_one_slash_witness:
  "count_list ''a/b/c'' CHR ''/'' > 1 \<and>
   parseIntervalString testLib (Date 0) ''a/b/c'' = Inl (Error ''Can not parse string a/b/c'')"
  using parseIntervalString_more_than_one_slash [of "''a/b/c''" testLib "Date 0"] by simp

text \<open>
  Claim C6. Let the left side \<open>p0\<close> begin with \<open>P\<close> and be accepted by \<open>Duration.fromJS\<close>.
  For \<open>p0/p1\<close> the end of the range is the instant \<open>new Date(p1)\<close> and the start is that
  end moved by the duration in \<open>Timezone.UTC\<close> with step \<open>-1\<close>, that is, the end minus
  the duration; an exception of \<open>move\<close> is passed on. When only \<open>p0\<close> is given the end is
  the current time (read back from its ISO string, which the built-in \<open>Date\<close> does
  faithfully) and the start is computed from it in the same way. On the test double,
  \<open>P1D/2024-01-02T00:00:00Z\<close> gives the range from 2024-01-01T00:00:00Z to
  2024-01-02T00:00:00Z.
\<close>

theorem parseIntervalString_duration_then_instant:
  assumes "startsWithP p0" and "CHR ''/'' \<notin> set p0" and "CHR ''/'' \<notin> set p1"
      and "Duration_fromJS L p0 = Inr duration"
  shows "parseIntervalString L now (p0 @ ''/'' @ p1) =
           (case Duration_move L duration (Some (Date_parse L p1)) UTC (- 1) of
              Inl e \<Rightarrow> Inl e
            | Inr start \<Rightarrow> TimeRange_fromJS L start (Some (Date_parse L p1))) \<and>
         (Date_parse L (toISOString L now) = now \<longrightarrow>
          parseIntervalString L now p0 =
            (case Duration_move L duration (Some now) UTC (- 1) of
               Inl e \<Rightarrow> Inl e
             | Inr start \<Rightarrow> TimeRange_fromJS L start (Some now))) \<and>
         parseIntervalString testLib now ''P1D/2024-01-02T00:00:00Z'' =
           Inr \<lparr>range_start = Some (Date_parse testLib ''2024-01-01T00:00:00Z''),
                range_end = Some (Date_parse testLib ''2024-01-02T00:00:00Z'')\<rparr>"
proof (intro conjI impI)
  show "parseIntervalString L now (p0 @ ''/'' @ p1) =
           (case Duration_move L duration (Some (Date_parse L p1)) UTC (- 1) of
              Inl e \<Rightarrow> Inl e
            | Inr start \<Rightarrow> TimeRange_fromJS L start (Some (Date_parse L p1)))"
    using assms by (simp add: parseIntervalString_def split_str_two Let_def)
  show "parseIntervalString L now p0 =
           (case Duration_move L duration (Some now) UTC (- 1) of
              Inl e \<Rightarrow> Inl e
            | Inr start \<Rightarrow> TimeRange_fromJS L start (Some now))"
    if "Date_parse L (toISOString L now) = now"
    using assms that by (simp add: parseIntervalString_def split_str_no_sep Let_def)
  show "parseIntervalString testLib now ''P1D/2024-01-02T00:00:00Z'' =
           Inr \<lparr>range_start = Some (Date_parse testLib ''2024-01-01T00:00:00Z''),
                range_end = Some (Date_parse testLib ''2024-01-02T00:00:00Z'')\<rparr>"
    by code_simp
qed

theorem parseIntervalString_duration_then_instant_witness:
  "startsWithP ''P1D'' \<and> CHR ''/'' \<notin> set ''P1D'' \<and> CHR ''/'' \<notin> set ''2024-01-02T00:00:00Z'' \<and>
   Duration_fromJS testLib ''P1D'' = Inr 86400000 \<and>
   Date_parse testLib (toISOString testLib (Date 1704153600000)) = Date 1704153600000 \<and>
   parseIntervalString testLib (Date 0) ''P1D/2024-01-02T00:00:00Z'' =
     Inr \<lparr>range_start = Some (Date 1704067200000), range_end = Some (Date 1704153600000)\<rparr> \<and>
   parseIntervalString testLib (Date 1704153600000) ''P1D'' =
     Inr \<lparr>range_start = Some (Date 1704067200000), range_end = Some (Date 1704153600000)\<rparr>"
proof -
  have h1: "startsWithP ''P1D''" by simp
  have h2: "CHR ''/'' \<notin> set ''P1D''" by simp
  have h3: "CHR ''/'' \<notin> set ''2024-01-02T00:00:00Z''" by simp
  have h4: "Duration_fromJS testLib ''P1D'' = Inr 86400000" by code_simp
  have h5: "Date_parse testLib (toISOString testLib (Date 1704153600000)) = Date 1704153600000"
    by code_simp
  have e1: "Date_parse testLib ''2024-01-02T00:00:00Z'' = Date 1704153600000" by code_simp
  have mv: "Duration_move testLib 86400000 (Some (Date 1704153600000)) UTC (- 1) =
              Inr (Some (Date 1704067200000))"
    by (simp add: testLib_def)
  have tr: "TimeRange_fromJS testLib s e = Inr \<lparr>range_start = s, range_end = e\<rparr>" for s e
    by (simp add: testLib_def test_TimeRange_fromJS_def)
  note T = parseIntervalString_duration_then_instant [OF h1 h2 h3 h4, of "Date 1704153600000"]
  have a: "parseIntervalString testLib (Date 1704153600000) ''P1D'' =
     Inr \<lparr>range_start = Some (Date 1704067200000), range_end = Some (Date 1704153600000)\<rparr>"
    using T h5 by (simp add: mv tr)
  note T0 = parseIntervalString_duration_then_instant [OF h1 h2 h3 h4, of "Date 0"]
  have b: "parseIntervalString testLib (Date 0) ''P1D/2024-01-02T00:00:00Z'' =
     Inr \<lparr>range_start = Some (Date 1704067200000), range_end = Some (Date 1704153600000)\<rparr>"
    using T0 by (simp add: e1 mv tr)
  show ?thesis using h1 h2 h3 h4 h5 a b by simp
qed

text \<open>
  Claim C1 (what the code does at \<open>2024-01-01T00:00:00Z/P1D\<close>). The left side is read as
  the start, but the end is \<open>duration.move(end, Timezone.UTC, 1)\<close> with \<open>end\<close> still
  \<open>null\<close>: the duration is moved from \<open>null\<close>, not from the start, so the end does not
  depend on the left instant. On the test double the call throws and no range is returned.
\<close>

theorem parseIntervalString_instant_then_duration:
  "parseIntervalString L now ''2024-01-01T00:00:00Z/P1D'' =
     (case Duration_fromJS L ''P1D'' of
        Inl e \<Rightarrow> Inl e
      | Inr duration \<Rightarrow>
          (case Duration_move L duration None UTC 1 of
             Inl e \<Rightarrow> Inl e
           | Inr end' \<Rightarrow>
               TimeRange_fromJS L (Some (Date_parse L ''2024-01-01T00:00:00Z'')) end')) \<and>
   parseIntervalString testLib now ''2024-01-01T00:00:00Z/P1D'' =
     Inl (TypeError ''Cannot read property valueOf of null'')"
proof
  have "split_str CHR ''/'' ''2024-01-01T00:00:00Z/P1D'' = [''2024-01-01T00:00:00Z'', ''P1D'']"
    by simp
  then show "parseIntervalString L now ''2024-01-01T00:00:00Z/P1D'' =
     (case Duration_fromJS L ''P1D'' of
        Inl e \<Rightarrow> Inl e
      | Inr duration \<Rightarrow>
          (case Duration_move L duration None UTC 1 of
             Inl e \<Rightarrow> Inl e
           | Inr end' \<Rightarrow>
               TimeRange_fromJS L (Some (Date_parse L ''2024-01-01T00:00:00Z'')) end'))"
    by (simp add: parseIntervalString_def Let_def)
  show "parseIntervalString testLib now ''2024-01-01T00:00:00Z/P1D'' =
     Inl (TypeError ''Cannot read property valueOf of null'')"
    by code_simp
qed

section \<open>Claims about run\<close>

text \<open>
  Claim C2. Take any invocation, from the command line or with a command object, that gets
  as far as building the transport: it is no usage or version request, its allow values and
  output format are accepted, it has a host, its query parses to a SELECT or DESCRIBE, and
  it has a data source. Then the requesters that the factories return are, in this order:
  the bare transport for the host and timeout, then the retry layer (with the retry count,
  a delay of 500 and \<open>retryOnTimeout = false\<close>) exactly when the retry count is greater than
  \<open>0\<close>, then the logging layer exactly when \<open>verbose\<close> is set, then the concurrency layer
  exactly when the limit is greater than \<open>0\<close>; each layer wraps the requester built before
  it. \<open>layers\<close> has no entry for a count that is \<open>0\<close> (or no number), so that layer is
  absent altogether. Unless the interval fails to parse, exactly one dataset is given to
  \<open>External.fromJS\<close>, and it carries the outermost requester.
\<close>

theorem run_transport_layers:
  assumes "parsed = (case command of Some c \<Rightarrow> c | None \<Rightarrow> args)"
      and "\<not> (command = None \<and> (argv_original parsed = [] \<or> help_flag parsed))"
      and "\<not> version_flag parsed"
      and "unexpectedAllow (case allow_flag parsed of Some a \<Rightarrow> a | None \<Rightarrow> []) = None"
      and "toLowerCase (case truthy (output_flag parsed) of Some s \<Rightarrow> s | None \<Rightarrow> ''json'')
             \<in> {''json'', ''csv'', ''tsv'', ''flat''}"
      and "truthy (js_or (druid_flag parsed) (host_flag parsed)) = Some h"
      and "truthy (query_flag parsed) = Some q"
      and "parseSQL L q = Inr sqlParse"
      and "verb sqlParse = ''SELECT'' \<or> verb sqlParse = ''DESCRIBE''"
      and "truthy (data_source_flag parsed) \<noteq> None \<or> truthy (table sqlParse) \<noteq> None"
      and "bare = druidRequesterFactory h
                    (case timeout_flag parsed of Some t \<Rightarrow> t | None \<Rightarrow> Number 60000)"
      and "ls = layers (case retry_flag parsed of Some r \<Rightarrow> r | None \<Rightarrow> Number 2)
                  (verbose_flag parsed)
                  (case concurrent_flag parsed of Some c \<Rightarrow> c | None \<Rightarrow> Number 2)"
      and "trace = fst (run L args now command)"
  shows "factoryCalls trace = applied bare ls \<and>
         (\<forall>ds \<in> set (datasets trace). requester ds = decorated bare ls) \<and>
         (truthy (interval_flag parsed) = None \<or>
          (\<exists>iv r. truthy (interval_flag parsed) = Some iv \<and>
             parseIntervalString L now iv = Inr r) \<longrightarrow>
          map requester (datasets trace) = [decorated bare ls])"
proof -
  have P: "(case command of Some c \<Rightarrow> c | None \<Rightarrow> args) = parsed"
    using assms(1) by simp
  from P show ?thesis
  proof (cases rule: run_cases [where L = L and now = now])
    case prints
    then show ?thesis using assms(2-7) by simp
  next
    case (sql q' evs)
    have q: "q' = q" using sql(1) assms(7) by simp
    from sql(9) have False
      unfolding q using assms(8,9,10) by auto
    then show ?thesis ..
  next
    case (interval h' q' sp dn dsrc evs iv e)
    have h: "h' = h" using interval(5) assms(6) by simp
    have f: "factoryCalls trace = applied bare ls"
      using interval(10,13) assms(11,12,13) h by (simp add: trace_simps)
    have d: "datasets trace = []"
      using interval(10,13) assms(13) by (simp add: trace_simps)
    show ?thesis using f d interval(11,12) by auto
  next
    case (query h' q' sp dn dsrc evs flt ds)
    have h: "h' = h" using query(5) assms(6) by simp
    have f: "factoryCalls trace = applied bare ls"
      using query(10,13) assms(11,12,13) h by (simp add: trace_simps)
    have d: "datasets trace = [ds]"
      using query(10,13) assms(13) by (simp add: trace_simps)
    have r: "requester ds = decorated bare ls"
      using query(12) assms(11,12) h by simp
    show ?thesis using f d r by simp
  qed
qed

theorem run_transport_layers_witness:
  "factoryCalls (fst (run testLib exampleArgs (Date 0) None)) =
     [druidRequesterFactory ''10.20.30.40'' (Number 60000),
      retryRequesterFactory (druidRequesterFactory ''10.20.30.40'' (Number 60000))
        (Number 5) 500 False,
      verboseRequesterFactory
        (retryRequesterFactory (druidRequesterFactory ''10.20.30.40'' (Number 60000))
           (Number 5) 500 False),
      concurrentLimitRequesterFactory
        (verboseRequesterFactory
           (retryRequesterFactory (druidRequesterFactory ''10.20.30.40'' (Number 60000))
              (Number 5) 500 False)) (Number 1)] \<and>
   map requester (datasets (fst (run testLib exampleArgs (Date 0) None))) =
     [concurrentLimitRequesterFactory
        (verboseRequesterFactory
           (retryRequesterFactory (druidRequesterFactory ''10.20.30.40'' (Number 60000))
              (Number 5) 500 False)) (Number 1)] \<and>
   factoryCalls (fst (run testLib plainArgs (Date 0) None)) =
     [druidRequesterFactory ''10.20.30.40'' (Number 60000)] \<and>
   map requester (datasets (fst (run testLib plainArgs (Date 0) None))) =
     [druidRequesterFactory ''10.20.30.40'' (Number 60000)]"
proof -
  have T: "factoryCalls (fst (run testLib exampleArgs (Date 0) None)) =
      applied (druidRequesterFactory ''10.20.30.40'' (Number 60000))
        (layers (Number 5) True (Number 1)) \<and>
     (\<forall>ds \<in> set (datasets (fst (run testLib exampleArgs (Date 0) None))).
        requester ds = decorated (druidRequesterFactory ''10.20.30.40'' (Number 60000))
          (layers (Number 5) True (Number 1))) \<and>
     (truthy (interval_flag exampleArgs) = None \<or>
      (\<exists>iv r. truthy (interval_flag exampleArgs) = Some iv \<and>
         parseIntervalString testLib (Date 0) iv = Inr r) \<longrightarrow>
      map requester (datasets (fst (run testLib exampleArgs (Date 0) None))) =
        [decorated (druidRequesterFactory ''10.20.30.40'' (Number 60000))
           (layers (Number 5) True (Number 1))])"
    by (rule run_transport_layers [where command = None and args = exampleArgs
          and parsed = exampleArgs and L = testLib and q = "''SELECT * FROM bar''",
          OF _ _ _ _ _ _ _ test_parse_bar])
       (simp_all add: example_flags lower_json)
  have U: "factoryCalls (fst (run testLib plainArgs (Date 0) None)) =
      applied (druidRequesterFactory ''10.20.30.40'' (Number 60000))
        (layers (Number 0) False (Number 0)) \<and>
     (\<forall>ds \<in> set (datasets (fst (run testLib plainArgs (Date 0) None))).
        requester ds = decorated (druidRequesterFactory ''10.20.30.40'' (Number 60000))
          (layers (Number 0) False (Number 0))) \<and>
     (truthy (interval_flag plainArgs) = None \<or>
      (\<exists>iv r. truthy (interval_flag plainArgs) = Some iv \<and>
         parseIntervalString testLib (Date 0) iv = Inr r) \<longrightarrow>
      map requester (datasets (fst (run testLib plainArgs (Date 0) None))) =
        [decorated (druidRequesterFactory ''10.20.30.40'' (Number 60000))
           (layers (Number 0) False (Number 0))])"
    by (rule run_transport_layers [where command = None and args = plainArgs
          and parsed = plainArgs and L = testLib and q = "''SELECT * FROM bar''",
          OF _ _ _ _ _ _ _ test_parse_bar])
       (simp_all add: plain_flags lower_json)
  show ?thesis using T U
    by (simp add: example_flags plain_flags layers_def decorated_def)
qed

text \<open>
  Claim C3. Take any invocation that builds its dataset (as in C2, with an interval that is
  absent or parses). When the retry count is greater than \<open>0\<close>, \<open>run\<close> calls the retry
  factory on the bare transport with that count, the delay \<open>500\<close> and
  \<open>retryOnTimeout = false\<close>. With the behaviour of the layers taken from the specification,
  one request through the requester of the dataset is dispatched again, 500 ms later, after
  each failure that is not a timeout, at most \<open>n\<close> additional times, where \<open>n\<close> is the
  retry count (\<open>0\<close> without a retry layer); it stops at the first answer that is not such a
  failure, be it a success or a timeout, also when the timeout follows failures. So a
  transport that always times out is reached exactly once, and one that always fails
  \<open>1 + n\<close> times.
\<close>

theorem run_retry_policy:
  assumes "parsed = (case command of Some c \<Rightarrow> c | None \<Rightarrow> args)"
      and "\<not> (command = None \<and> (argv_original parsed = [] \<or> help_flag parsed))"
      and "\<not> version_flag parsed"
      and "unexpectedAllow (case allow_flag parsed of Some a \<Rightarrow> a | None \<Rightarrow> []) = None"
      and "toLowerCase (case truthy (output_flag parsed) of Some s \<Rightarrow> s | None \<Rightarrow> ''json'')
             \<in> {''json'', ''csv'', ''tsv'', ''flat''}"
      and "truthy (js_or (druid_flag parsed) (host_flag parsed)) = Some h"
      and "truthy (query_flag parsed) = Some q"
      and "parseSQL L q = Inr sqlParse"
      and "verb sqlParse = ''SELECT'' \<or> verb sqlParse = ''DESCRIBE''"
      and "truthy (data_source_flag parsed) \<noteq> None \<or> truthy (table sqlParse) \<noteq> None"
      and "truthy (interval_flag parsed) = None \<or>
           (\<exists>iv r. truthy (interval_flag parsed) = Some iv \<and>
              parseIntervalString L now iv = Inr r)"
      and "retry = (case retry_flag parsed of Some r \<Rightarrow> r | None \<Rightarrow> Number 2)"
      and "n = retriesOf retry"
      and "trace = fst (run L args now command)"
  shows "\<exists>ds. datasets trace = [ds] \<and>
           (positive retry \<longrightarrow>
              retryRequesterFactory
                (druidRequesterFactory h
                   (case timeout_flag parsed of Some t \<Rightarrow> t | None \<Rightarrow> Number 60000))
                retry 500 False \<in> set (factoryCalls trace)) \<and>
           send (requester ds) (\<lambda>k. Timeout :: 'a response) 0 = (Timeout, 1, []) \<and>
           send (requester ds) (\<lambda>k. Failure :: 'a response) 0 =
             (Failure, 1 + n, replicate n 500) \<and>
           (\<forall>bare :: nat \<Rightarrow> 'a response. fst (snd (send (requester ds) bare 0)) \<le> 1 + n) \<and>
           (\<forall>(bare :: nat \<Rightarrow> 'a response) j.
              j \<le> n \<and> (\<forall>i<j. bare i = Failure) \<and> bare j \<noteq> Failure \<longrightarrow>
              send (requester ds) bare 0 = (bare j, Suc j, replicate j 500)) \<and>
           (\<forall>bare :: nat \<Rightarrow> 'a response.
              (\<forall>i\<le>n. bare i = Failure) \<longrightarrow>
              send (requester ds) bare 0 = (Failure, Suc n, replicate n 500))"
proof -
  have P: "(case command of Some c \<Rightarrow> c | None \<Rightarrow> args) = parsed"
    using assms(1) by simp
  obtain ds where d: "datasets trace = [ds]"
    and m: "ds \<in> set (datasets (fst (run L args now command)))"
    by (rule run_builds_dataset [OF assms(1-11) assms(14)])
  from P m obtain h' where
    h': "truthy (js_or (druid_flag parsed) (host_flag parsed)) = Some h'" and
    R: "requester ds =
         decorated
           (druidRequesterFactory h'
              (case timeout_flag parsed of Some t \<Rightarrow> t | None \<Rightarrow> Number 60000))
           (layers retry (verbose_flag parsed)
              (case concurrent_flag parsed of Some c \<Rightarrow> c | None \<Rightarrow> Number 2))"
    unfolding assms(12) by (rule run_dataset)
  have calls: "factoryCalls trace =
      applied
        (druidRequesterFactory h
           (case timeout_flag parsed of Some t \<Rightarrow> t | None \<Rightarrow> Number 60000))
        (layers retry (verbose_flag parsed)
           (case concurrent_flag parsed of Some c \<Rightarrow> c | None \<Rightarrow> Number 2))"
    using run_transport_layers_calls [OF assms(1-10) assms(14)] assms(12) by simp
  have c: "positive retry \<longrightarrow>
      retryRequesterFactory
        (druidRequesterFactory h
           (case timeout_flag parsed of Some t \<Rightarrow> t | None \<Rightarrow> Number 60000))
        retry 500 False \<in> set (factoryCalls trace)"
    unfolding calls by (simp add: layers_def)
  have s4: "send (requester ds) bare 0 = (bare j, Suc j, replicate j 500)"
    if "j \<le> n" "\<forall>i<j. bare i = Failure" "bare j \<noteq> Failure"
    for bare :: "nat \<Rightarrow> 'a response" and j
    unfolding R send_decorated assms(13) [symmetric]
    using retrying_stops [of j n bare 0 500] that by simp
  have s5: "send (requester ds) bare 0 = (Failure, Suc n, replicate n 500)"
    if "\<forall>i\<le>n. bare i = Failure" for bare :: "nat \<Rightarrow> 'a response"
    unfolding R send_decorated assms(13) [symmetric]
    using retrying_exhausted [of n bare 0 500 False] that by simp
  have s1: "send (requester ds) (\<lambda>k. Timeout :: 'a response) 0 = (Timeout, 1, [])"
    unfolding R send_decorated by (simp add: retrying_timeout)
  have s2: "send (requester ds) (\<lambda>k. Failure :: 'a response) 0 =
              (Failure, 1 + n, replicate n 500)"
    unfolding R send_decorated assms(13) [symmetric] by (simp add: retrying_failure)
  have s3: "fst (snd (send (requester ds) bare 0)) \<le> 1 + n"
    for bare :: "nat \<Rightarrow> 'a response"
    unfolding R send_decorated assms(13) [symmetric] using retrying_bound [of bare n 500 False 0]
    by simp
  show ?thesis using d c s1 s2 s3 s4 s5 by blast
qed

theorem run_retry_policy_witness:
  "map (\<lambda>ds. send (requester ds) (\<lambda>k. Timeout :: unit response) 0)
     (datasets (fst (run testLib exampleArgs (Date 0) None))) = [(Timeout, 1, [])] \<and>
   map (\<lambda>ds. send (requester ds) (\<lambda>k. if k = 0 then Failure else (Timeout :: unit response)) 0)
     (datasets (fst (run testLib exampleArgs (Date 0) None))) = [(Timeout, 2, [500])] \<and>
   map (\<lambda>ds. send (requester ds) (\<lambda>k. if k < 2 then Failure else Success ()) 0)
     (datasets (fst (run testLib exampleArgs (Date 0) None))) = [(Success (), 3, [500, 500])] \<and>
   map (\<lambda>ds. send (requester ds) (\<lambda>k. Failure :: unit response) 0)
     (datasets (fst (run testLib exampleArgs (Date 0) None))) =
     [(Failure, 6, [500, 500, 500, 500, 500])]"
proof -
  have n: "(5::nat) = retriesOf (Number 5)" by simp
  have "\<exists>ds. datasets (fst (run testLib exampleArgs (Date 0) None)) = [ds] \<and>
     (positive (Number 5) \<longrightarrow>
        retryRequesterFactory
          (druidRequesterFactory ''10.20.30.40''
             (case timeout_flag exampleArgs of Some t \<Rightarrow> t | None \<Rightarrow> Number 60000))
          (Number 5) 500 False \<in> set (factoryCalls (fst (run testLib exampleArgs (Date 0) None)))) \<and>
     send (requester ds) (\<lambda>k. Timeout :: unit response) 0 = (Timeout, 1, []) \<and>
     send (requester ds) (\<lambda>k. Failure :: unit response) 0 = (Failure, 1 + 5, replicate 5 500) \<and>
     (\<forall>bare :: nat \<Rightarrow> unit response. fst (snd (send (requester ds) bare 0)) \<le> 1 + 5) \<and>
     (\<forall>(bare :: nat \<Rightarrow> unit response) j.
        j \<le> 5 \<and> (\<forall>i<j. bare i = Failure) \<and> bare j \<noteq> Failure \<longrightarrow>
        send (requester ds) bare 0 = (bare j, Suc j, replicate j 500)) \<and>
     (\<forall>bare :: nat \<Rightarrow> unit response.
        (\<forall>i\<le>5. bare i = Failure) \<longrightarrow>
        send (requester ds) bare 0 = (Failure, Suc 5, replicate 5 500))"
    by (rule run_retry_policy [where command = None and args = exampleArgs
          and parsed = exampleArgs and L = testLib and q = "''SELECT * FROM bar''"
          and now = "Date 0" and retry = "Number 5" and n = 5,
          OF _ _ _ _ _ _ _ test_parse_bar _ _ _ _ n])
       (simp_all add: example_flags lower_json)
  then obtain ds where d: "datasets (fst (run testLib exampleArgs (Date 0) None)) = [ds]"
    and t: "send (requester ds) (\<lambda>k. Timeout :: unit response) 0 = (Timeout, 1, [])"
    and f: "send (requester ds) (\<lambda>k. Failure :: unit response) 0 =
              (Failure, 1 + 5, replicate 5 500)"
    and st: "\<And>(bare :: nat \<Rightarrow> unit response) j.
        j \<le> 5 \<Longrightarrow> (\<forall>i<j. bare i = Failure) \<Longrightarrow> bare j \<noteq> Failure \<Longrightarrow>
        send (requester ds) bare 0 = (bare j, Suc j, replicate j 500)"
    by blast
  have a: "send (requester ds) (\<lambda>k. if k = 0 then Failure else (Timeout :: unit response)) 0 =
      (Timeout, 2, [500])"
    using st [of 1 "\<lambda>k. if k = 0 then Failure else Timeout"] by simp
  have b: "send (requester ds) (\<lambda>k. if k < 2 then Failure else Success ()) 0 =
      (Success (), 3, [500, 500])"
    using st [of 2 "\<lambda>k. if k < 2 then Failure else Success ()"]
    by (simp add: numeral_2_eq_2 numeral_3_eq_3)
  have five: "replicate 5 (500::int) = [500, 500, 500, 500, 500]"
    by (simp add: numeral_eq_Suc)
  show ?thesis using d t f a b by (simp add: five)
qed



text \<open>
  Claim C5, as amended. When the output format (lower-cased, \<open>json\<close> when the flag is absent
  or empty) is not one of json, csv, tsv, flat, the invocation only prints and returns
  \<open>undefined\<close>: no query is parsed, no transport is constructed and nothing reaches the
  network. What it prints is the line "output must be one of json, csv, tsv, or flat ..."
  unless the invocation is a usage or version request or has an unexpected allow value,
  which are handled before the output format is looked at.
\<close>

theorem run_output_format:
  assumes "parsed = (case command of Some c \<Rightarrow> c | None \<Rightarrow> args)"
      and "output = toLowerCase (case truthy (output_flag parsed) of Some s \<Rightarrow> s | None \<Rightarrow> ''json'')"
      and "output \<notin> {''json'', ''csv'', ''tsv'', ''flat''}"
  shows "list_all isPrint (fst (run L args now command)) \<and>
         snd (run L args now command) = Undefined \<and>
         (\<not> (command = None \<and> (argv_original parsed = [] \<or> help_flag parsed)) \<and>
          \<not> version_flag parsed \<and>
          unexpectedAllow (case allow_flag parsed of Some a \<Rightarrow> a | None \<Rightarrow> []) = None \<longrightarrow>
          run L args now command =
            ([console_log [''output must be one of json, csv, tsv, or flat (is '' @ output @ ''})'']],
             Undefined))"
proof (intro conjI impI)
  have P: "(case command of Some c \<Rightarrow> c | None \<Rightarrow> args) = parsed"
    using assms(1) by simp
  have bad: "toLowerCase (case truthy (output_flag parsed) of Some s \<Rightarrow> s | None \<Rightarrow> ''json'')
               \<notin> {''json'', ''csv'', ''tsv'', ''flat''}"
    using assms(2,3) by simp
  from P have "list_all isPrint (fst (run L args now command)) \<and>
               snd (run L args now command) = Undefined"
  proof (cases rule: run_cases [where L = L and now = now])
    case prints
    then show ?thesis by simp
  next
    case (sql q evs)
    then show ?thesis using bad by simp
  next
    case (interval h q sp dn dsrc evs iv e)
    then show ?thesis using bad by simp
  next
    case (query h q sp dn dsrc evs flt ds)
    then show ?thesis using bad by simp
  qed
  then show "list_all isPrint (fst (run L args now command))"
    and "snd (run L args now command) = Undefined"
    by simp_all
  show "run L args now command =
          ([console_log [''output must be one of json, csv, tsv, or flat (is '' @ output @ ''})'']],
           Undefined)"
    if "\<not> (command = None \<and> (argv_original parsed = [] \<or> help_flag parsed)) \<and>
        \<not> version_flag parsed \<and>
        unexpectedAllow (case allow_flag parsed of Some a \<Rightarrow> a | None \<Rightarrow> []) = None"
    using that P bad assms(2) by (simp add: run_def Let_def)
qed

theorem run_output_format_witness:
  "toLowerCase ''XML'' \<notin> {''json'', ''csv'', ''tsv'', ''flat''} \<and>
   run testLib noFlags (Date 0) (Some xmlCommand) =
     ([console_log [''output must be one of json, csv, tsv, or flat (is xml})'']], Undefined)"
proof -
  have p: "xmlCommand = (case Some xmlCommand of Some c \<Rightarrow> c | None \<Rightarrow> noFlags)"
    by simp
  have low: "toLowerCase ''XML'' = ''xml''"
    by code_simp
  have o: "''xml'' = toLowerCase (case truthy (output_flag xmlCommand) of
                                    Some s \<Rightarrow> s | None \<Rightarrow> ''json'')"
    by (simp add: xmlCommand_def noFlags_def low)
  have bad: "''xml'' \<notin> {''json'', ''csv'', ''tsv'', ''flat''}"
    by simp
  have pre: "\<not> (Some xmlCommand = None \<and> (argv_original xmlCommand = [] \<or> help_flag xmlCommand)) \<and>
     \<not> version_flag xmlCommand \<and>
     unexpectedAllow (case allow_flag xmlCommand of Some a \<Rightarrow> a | None \<Rightarrow> []) = None"
    by (simp add: xmlCommand_def noFlags_def)
  from run_output_format [OF p o bad, of testLib "Date 0"] pre
  have "run testLib noFlags (Date 0) (Some xmlCommand) =
     ([console_log [''output must be one of json, csv, tsv, or flat (is '' @ ''xml'' @ ''})'']],
      Undefined)"
    by blast
  then show ?thesis using bad by (simp add: low)
qed

text \<open>
  The claim as stated, for every invocation, fails for a version request: with
  \<open>--version --output XML\<close> the version is printed and no error about the output format
  is reported.
\<close>

theorem run_output_format_counterexample:
  "toLowerCase ''XML'' \<notin> {''json'', ''csv'', ''tsv'', ''flat''} \<and>
   run testLib noFlags (Date 0) (Some (xmlCommand\<lparr>version_flag := True\<rparr>)) =
     ([printVersion], Undefined)"
  by code_simp

text \<open>
  Claim C8. Take any invocation that builds its dataset (as in C2, with an interval that is
  absent or parses). The attribute overrides of the dataset given to \<open>External.fromJS\<close> are
  one entry of kind \<open>unique\<close> per value of \<open>--force-unique\<close>, in the order of the values,
  followed by one entry of kind \<open>histogram\<close> per value of \<open>--force-histogram\<close>, in the order
  of the values; a name that is given twice gets two entries.
\<close>

theorem run_attribute_overrides:
  assumes "parsed = (case command of Some c \<Rightarrow> c | None \<Rightarrow> args)"
      and "\<not> (command = None \<and> (argv_original parsed = [] \<or> help_flag parsed))"
      and "\<not> version_flag parsed"
      and "unexpectedAllow (case allow_flag parsed of Some a \<Rightarrow> a | None \<Rightarrow> []) = None"
      and "toLowerCase (case truthy (output_flag parsed) of Some s \<Rightarrow> s | None \<Rightarrow> ''json'')
             \<in> {''json'', ''csv'', ''tsv'', ''flat''}"
      and "truthy (js_or (druid_flag parsed) (host_flag parsed)) = Some h"
      and "truthy (query_flag parsed) = Some q"
      and "parseSQL L q = Inr sqlParse"
      and "verb sqlParse = ''SELECT'' \<or> verb sqlParse = ''DESCRIBE''"
      and "truthy (data_source_flag parsed) \<noteq> None \<or> truthy (table sqlParse) \<noteq> None"
      and "truthy (interval_flag parsed) = None \<or>
           (\<exists>iv r. truthy (interval_flag parsed) = Some iv \<and>
              parseIntervalString L now iv = Inr r)"
      and "forceUnique = (case force_unique_flag parsed of Some a \<Rightarrow> a | None \<Rightarrow> [])"
      and "forceHistogram = (case force_histogram_flag parsed of Some a \<Rightarrow> a | None \<Rightarrow> [])"
      and "trace = fst (run L args now command)"
  shows "map attributeOverrides (datasets trace) =
           [map (\<lambda>n. \<lparr>name = n, special = ''unique''\<rparr>) forceUnique @
            map (\<lambda>n. \<lparr>name = n, special = ''histogram''\<rparr>) forceHistogram]"
proof -
  have P: "(case command of Some c \<Rightarrow> c | None \<Rightarrow> args) = parsed"
    using assms(1) by simp
  obtain ds where d: "datasets trace = [ds]"
    and m: "ds \<in> set (datasets (fst (run L args now command)))"
    by (rule run_builds_dataset [OF assms(1-11) assms(14)])
  from P m have "attributeOverrides ds =
      map (\<lambda>n. \<lparr>name = n, special = ''unique''\<rparr>) forceUnique @
      map (\<lambda>n. \<lparr>name = n, special = ''histogram''\<rparr>) forceHistogram"
    unfolding assms(12,13) by (rule run_dataset)
  then show ?thesis using d by simp
qed

theorem run_attribute_overrides_witness:
  "map attributeOverrides (datasets (fst (run testLib exampleArgs (Date 0) None))) =
     [[\<lparr>name = ''user'', special = ''unique''\<rparr>, \<lparr>name = ''user'', special = ''unique''\<rparr>,
       \<lparr>name = ''delta'', special = ''histogram''\<rparr>]]"
proof -
  have "map attributeOverrides (datasets (fst (run testLib exampleArgs (Date 0) None))) =
     [map (\<lambda>n. \<lparr>name = n, special = ''unique''\<rparr>) [''user'', ''user''] @
      map (\<lambda>n. \<lparr>name = n, special = ''histogram''\<rparr>) [''delta'']]"
    by (rule run_attribute_overrides [where command = None and args = exampleArgs
          and parsed = exampleArgs and L = testLib and q = "''SELECT * FROM bar''"
          and now = "Date 0", OF _ _ _ _ _ _ _ test_parse_bar])
       (simp_all add: example_flags lower_json)
  then show ?thesis by simp
qed

text \<open>
  Claim C9. Take any invocation that gets as far as computing a SELECT query (it is no usage
  or version request, its allow values and output format are accepted, it has a host, its
  query parses to a SELECT, and its interval is absent or parses). The context given to
  \<open>expression.compute\<close> has exactly one binding, of the dataset that was built. Its name is
  the placeholder \<open>data\<close> whenever \<open>--data-source\<close> has a (non-empty) value, also when the
  parsed query names a table; only without that flag is the name the table of the parsed
  query.
\<close>

theorem run_binding_name:
  assumes "parsed = (case command of Some c \<Rightarrow> c | None \<Rightarrow> args)"
      and "\<not> (command = None \<and> (argv_original parsed = [] \<or> help_flag parsed))"
      and "\<not> version_flag parsed"
      and "unexpectedAllow (case allow_flag parsed of Some a \<Rightarrow> a | None \<Rightarrow> []) = None"
      and "toLowerCase (case truthy (output_flag parsed) of Some s \<Rightarrow> s | None \<Rightarrow> ''json'')
             \<in> {''json'', ''csv'', ''tsv'', ''flat''}"
      and "truthy (js_or (druid_flag parsed) (host_flag parsed)) = Some h"
      and "truthy (query_flag parsed) = Some q"
      and "parseSQL L q = Inr sqlParse"
      and "verb sqlParse = ''SELECT''"
      and "case truthy (data_source_flag parsed) of
             Some d \<Rightarrow> dataName = ''data''
           | None \<Rightarrow> truthy (table sqlParse) = Some dataName"
      and "truthy (interval_flag parsed) = None \<or>
           (\<exists>iv r. truthy (interval_flag parsed) = Some iv \<and>
              parseIntervalString L now iv = Inr r)"
      and "trace = fst (run L args now command)"
  shows "\<exists>dataset. datasets trace = [dataset] \<and>
           computeContexts trace = [[(dataName, dataset)]]"
proof -
  have P: "(case command of Some c \<Rightarrow> c | None \<Rightarrow> args) = parsed"
    using assms(1) by simp
  have v: "verb sqlParse = ''SELECT'' \<or> verb sqlParse = ''DESCRIBE''"
    using assms(9) by simp
  have res: "truthy (data_source_flag parsed) \<noteq> None \<or> truthy (table sqlParse) \<noteq> None"
    using assms(10) by (cases "truthy (data_source_flag parsed)") simp_all
  obtain ds where d: "datasets trace = [ds]"
    and m: "ds \<in> set (datasets (fst (run L args now command)))"
    by (rule run_builds_dataset [OF assms(1-8) v res assms(11,12)])
  from P m obtain q' sp dn dsrc where
    q': "truthy (query_flag parsed) = Some q'" and
    sp: "parseSQL L q' = Inr sp" and
    rel: "(truthy (data_source_flag parsed) = Some dsrc \<and> dn = ''data'') \<or>
          (truthy (data_source_flag parsed) = None \<and> truthy (table sp) = Some dsrc \<and> dn = dsrc)" and
    cc: "computeContexts (fst (run L args now command)) =
           (if verb sp = ''DESCRIBE'' then [] else [[(dn, ds)]])"
    by (rule run_dataset)
  have "q' = q" using q' assms(7) by simp
  then have s: "sp = sqlParse" using sp assms(8) by simp
  have n: "dn = dataName" using rel assms(10) s by auto
  have "computeContexts trace = [[(dataName, ds)]]"
    using cc s n assms(9,12) by simp
  then show ?thesis using d by blast
qed

theorem run_binding_name_witness:
  "truthy (data_source_flag exampleArgs) = Some ''foo'' \<and>
   truthy (table \<lparr>verb = ''SELECT'', expression = ''SELECT * FROM bar'', table = Some ''bar''\<rparr>)
     = Some ''bar'' \<and>
   map (map fst) (computeContexts (fst (run testLib exampleArgs (Date 0) None))) = [[''data'']] \<and>
   truthy (data_source_flag plainArgs) = None \<and>
   map (map fst) (computeContexts (fst (run testLib plainArgs (Date 0) None))) = [[''bar'']]"
proof -
  have "\<exists>dataset. datasets (fst (run testLib exampleArgs (Date 0) None)) = [dataset] \<and>
     computeContexts (fst (run testLib exampleArgs (Date 0) None)) = [[(''data'', dataset)]]"
    by (rule run_binding_name [where command = None and args = exampleArgs
          and parsed = exampleArgs and L = testLib and q = "''SELECT * FROM bar''"
          and now = "Date 0", OF _ _ _ _ _ _ _ test_parse_bar])
       (simp_all add: example_flags lower_json)
  then have a: "map (map fst) (computeContexts (fst (run testLib exampleArgs (Date 0) None))) =
      [[''data'']]"
    by auto
  have "\<exists>dataset. datasets (fst (run testLib plainArgs (Date 0) None)) = [dataset] \<and>
     computeContexts (fst (run testLib plainArgs (Date 0) None)) = [[(''bar'', dataset)]]"
    by (rule run_binding_name [where command = None and args = plainArgs
          and parsed = plainArgs and L = testLib and q = "''SELECT * FROM bar''"
          and now = "Date 0", OF _ _ _ _ _ _ _ test_parse_bar])
       (simp_all add: plain_flags lower_json)
  then have b: "map (map fst) (computeContexts (fst (run testLib plainArgs (Date 0) None))) =
      [[''bar'']]"
    by auto
  show ?thesis using a b by (simp add: example_flags plain_flags)
qed

text \<open>
  Claim C10, as amended. When neither \<open>--host\<close> nor \<open>--druid\<close> has a (non-empty) value, the
  invocation only prints and returns \<open>undefined\<close>: no query is parsed, no transport is
  constructed and nothing reaches the network. What it prints is "must have a host"
  unless the invocation is a usage or version request, has an unexpected allow value or a
  bad output format, which are handled before the host is looked at.
\<close>

theorem run_requires_host:
  assumes "parsed = (case command of Some c \<Rightarrow> c | None \<Rightarrow> args)"
      and "truthy (host_flag parsed) = None"
      and "truthy (druid_flag parsed) = None"
  shows "list_all isPrint (fst (run L args now command)) \<and>
         snd (run L args now command) = Undefined \<and>
         (\<not> (command = None \<and> (argv_original parsed = [] \<or> help_flag parsed)) \<and>
          \<not> version_flag parsed \<and>
          unexpectedAllow (case allow_flag parsed of Some a \<Rightarrow> a | None \<Rightarrow> []) = None \<and>
          toLowerCase (case truthy (output_flag parsed) of Some s \<Rightarrow> s | None \<Rightarrow> ''json'')
            \<in> {''json'', ''csv'', ''tsv'', ''flat''} \<longrightarrow>
          run L args now command = ([console_log [''must have a host'']], Undefined))"
proof (intro conjI impI)
  have P: "(case command of Some c \<Rightarrow> c | None \<Rightarrow> args) = parsed"
    using assms(1) by simp
  have noHost: "truthy (js_or (druid_flag parsed) (host_flag parsed)) = None"
    using assms(2,3) by (simp add: truthy_js_or_None)
  from P have "list_all isPrint (fst (run L args now command)) \<and>
               snd (run L args now command) = Undefined"
  proof (cases rule: run_cases [where L = L and now = now])
    case prints
    then show ?thesis by simp
  next
    case (sql q evs)
    then show ?thesis using noHost by simp
  next
    case (interval h q sp dn dsrc evs iv e)
    then show ?thesis using noHost by simp
  next
    case (query h q sp dn dsrc evs flt ds)
    then show ?thesis using noHost by simp
  qed
  then show "list_all isPrint (fst (run L args now command))"
    and "snd (run L args now command) = Undefined"
    by simp_all
  show "run L args now command = ([console_log [''must have a host'']], Undefined)"
    if "\<not> (command = None \<and> (argv_original parsed = [] \<or> help_flag parsed)) \<and>
        \<not> version_flag parsed \<and>
        unexpectedAllow (case allow_flag parsed of Some a \<Rightarrow> a | None \<Rightarrow> []) = None \<and>
        toLowerCase (case truthy (output_flag parsed) of Some s \<Rightarrow> s | None \<Rightarrow> ''json'')
          \<in> {''json'', ''csv'', ''tsv'', ''flat''}"
    using that P noHost by (simp add: run_def Let_def)
qed

theorem run_requires_host_witness:
  "truthy (host_flag noHostCommand) = None \<and> truthy (druid_flag noHostCommand) = None \<and>
   run testLib noFlags (Date 0) (Some noHostCommand) =
     ([console_log [''must have a host'']], Undefined)"
proof -
  have p: "noHostCommand = (case Some noHostCommand of Some c \<Rightarrow> c | None \<Rightarrow> noFlags)"
    by simp
  have h: "truthy (host_flag noHostCommand) = None"
    and d: "truthy (druid_flag noHostCommand) = None"
    by (simp_all add: noHostCommand_def noFlags_def)
  have low: "toLowerCase ''json'' = ''json''"
    by code_simp
  have pre: "\<not> (Some noHostCommand = None \<and>
                (argv_original noHostCommand = [] \<or> help_flag noHostCommand)) \<and>
     \<not> version_flag noHostCommand \<and>
     unexpectedAllow (case allow_flag noHostCommand of Some a \<Rightarrow> a | None \<Rightarrow> []) = None \<and>
     toLowerCase (case truthy (output_flag noHostCommand) of Some s \<Rightarrow> s | None \<Rightarrow> ''json'')
       \<in> {''json'', ''csv'', ''tsv'', ''flat''}"
    by (simp add: noHostCommand_def noFlags_def low)
  from run_requires_host [OF p h d, of testLib "Date 0"] pre
  have "run testLib noFlags (Date 0) (Some noHostCommand) =
          ([console_log [''must have a host'']], Undefined)"
    by blast
  then show ?thesis using h d by simp
qed

text \<open>
  The claim as stated fails for the invocation with no argument at all: no host is
  supplied, and the usage text is printed, not "must have a host".
\<close>

theorem run_requires_host_counterexample:
  "truthy (host_flag noFlags) = None \<and> truthy (druid_flag noFlags) = None \<and>
   run testLib noFlags (Date 0) None = ([printUsage], Undefined)"
  by code_simp

end
